theory Spec2Isabelle
  imports Complex_Main "HOL-Library.Sublist"
begin

section \<open>Bank-statement extraction pipeline of app.py\<close>

text \<open>
  The development embeds the parsing core of \<^verbatim>\<open>src/app.py\<close>: the locale parsers
  \<^verbatim>\<open>parse_brl_amount\<close> and \<^verbatim>\<open>parse_date\<close>, the merchant normaliser, the table
  row parser, the text line parser and the three-attempt orchestrator.

  Python strings are modelled as HOL strings read as ASCII text. The library functions
  the code calls (\<^verbatim>\<open>str.strip\<close>, \<^verbatim>\<open>str.upper\<close>, \<^verbatim>\<open>re.sub\<close>, \<^verbatim>\<open>float\<close>,
  \<^verbatim>\<open>datetime.strptime\<close>, \<^verbatim>\<open>unicodedata.normalize\<close>) are given with the behaviour
  CPython has on ASCII input; a character outside ASCII is carried along unchanged, it
  is no letter with a case, no digit, no whitespace and no combining mark.
\<close>

subsection \<open>Character classes and string methods\<close>

text \<open>
  \<^verbatim>\<open>str.isspace\<close>, \<^verbatim>\<open>str.strip()\<close> and the regular expression class \<^verbatim>\<open>\s\<close> share
  one table in CPython; its ASCII members are TAB, LF, VT, FF, CR, the four separators
  0x1C to 0x1F and the blank.
\<close>

definition isspace :: "char \<Rightarrow> bool" where
  "isspace c = (c \<in> set [CHR 0x09, CHR 0x0A, CHR 0x0B, CHR 0x0C, CHR 0x0D,
                           CHR 0x1C, CHR 0x1D, CHR 0x1E, CHR 0x1F, CHR '' ''])"

text \<open>The regular expression class \<^verbatim>\<open>\d\<close>.\<close>

definition isdigit :: "char \<Rightarrow> bool" where
  "isdigit c = (c \<in> set ''0123456789'')"

definition digit_val :: "char \<Rightarrow> nat" where
  "digit_val c = of_char c - 48"

text \<open>\<^verbatim>\<open>int(s)\<close> on a string of decimal digits.\<close>

definition digits_val :: "string \<Rightarrow> nat" where
  "digits_val s = foldl (\<lambda>n c. 10 * n + digit_val c) 0 s"

text \<open>\<^verbatim>\<open>s.strip(chars)\<close>: drop the characters of a class from both ends.\<close>

definition strip_class :: "(char \<Rightarrow> bool) \<Rightarrow> string \<Rightarrow> string" where
  "strip_class p s = rev (dropWhile p (rev (dropWhile p s)))"

text \<open>\<^verbatim>\<open>s.strip()\<close>\<close>

definition strip :: "string \<Rightarrow> string" where
  "strip s = strip_class isspace s"

text \<open>\<^verbatim>\<open>s.strip(" -:/")\<close>\<close>

definition strip_separators :: "string \<Rightarrow> string" where
  "strip_separators s = strip_class (\<lambda>c. c \<in> set '' -:/'') s"

text \<open>\<^verbatim>\<open>re.sub(r"\s+", " ", s)\<close>: every maximal run of whitespace becomes one blank.\<close>

function collapse_ws :: "string \<Rightarrow> string" where
  "collapse_ws [] = []"
| "collapse_ws (c # cs) =
     (if isspace c then CHR '' '' # collapse_ws (dropWhile isspace cs)
      else c # collapse_ws cs)"
  by pat_completeness auto
termination
  by (relation "measure length") (auto simp: less_Suc_eq_le length_dropWhile_le)

declare collapse_ws.simps [simp del]

text \<open>\<^verbatim>\<open>s.upper()\<close>\<close>

definition upper_char :: "char \<Rightarrow> char" where
  "upper_char c =
     (case map_of (zip ''abcdefghijklmnopqrstuvwxyz'' ''ABCDEFGHIJKLMNOPQRSTUVWXYZ'') c of
        Some u \<Rightarrow> u
      | None \<Rightarrow> c)"

definition upper :: "string \<Rightarrow> string" where
  "upper s = map upper_char s"

text \<open>\<^verbatim>\<open>s.startswith(p)\<close>\<close>

definition startswith :: "string \<Rightarrow> string \<Rightarrow> bool" where
  "startswith s p = (take (length p) s = p)"

text \<open>\<^verbatim>\<open>sub in s\<close>\<close>

fun contains :: "string \<Rightarrow> string \<Rightarrow> bool" where
  "contains [] sub = (sub = [])"
| "contains (c # cs) sub = (startswith (c # cs) sub \<or> contains cs sub)"

text \<open>\<^verbatim>\<open>s.replace(old, new)\<close> for a non-empty \<^verbatim>\<open>old\<close>: the occurrences are replaced
  from left to right, without overlap.\<close>

fun replace :: "string \<Rightarrow> string \<Rightarrow> string \<Rightarrow> string" where
  "replace old new [] = []"
| "replace old new (c # cs) =
     (if old \<noteq> [] \<and> startswith (c # cs) old
      then new @ replace old new (drop (length old) (c # cs))
      else c # replace old new cs)"

text \<open>
  \<^verbatim>\<open>strip_accents\<close>: NFD decomposition, then the combining marks are dropped. On ASCII
  text the decomposition changes nothing and no character is a combining mark.
\<close>

definition nfd :: "string \<Rightarrow> string" where
  "nfd s = s"

definition combining :: "char \<Rightarrow> bool" where
  "combining c = False"

definition strip_accents :: "string \<Rightarrow> string" where
  "strip_accents text = filter (\<lambda>ch. \<not> combining ch) (nfd text)"

subsection \<open>Floating-point values and the builtin float\<close>

text \<open>
  A Python float is modelled by the number it stands for: \<open>Num q\<close> is the double nearest
  to the rational \<open>q\<close>, and the two infinities and NaN are values of their own. The
  rounding of a decimal to the nearest double is not carried out (so \<open>Num (1199 / 10)\<close>
  is what Python prints as \<^verbatim>\<open>119.9\<close>), but overflow to an infinity and underflow to
  zero are, since the sign tests of the code depend on them.
\<close>

datatype pyfloat = Num rat | PInf | NInf | NaN

text \<open>\<^verbatim>\<open>-x\<close>, \<^verbatim>\<open>abs(x)\<close> and \<^verbatim>\<open>x > 0\<close> on floats; every comparison with NaN is false.\<close>

fun fneg :: "pyfloat \<Rightarrow> pyfloat" where
  "fneg (Num q) = Num (- q)"
| "fneg PInf = NInf"
| "fneg NInf = PInf"
| "fneg NaN = NaN"

fun fabs :: "pyfloat \<Rightarrow> pyfloat" where
  "fabs (Num q) = Num \<bar>q\<bar>"
| "fabs PInf = PInf"
| "fabs NInf = PInf"
| "fabs NaN = NaN"

fun fpos :: "pyfloat \<Rightarrow> bool" where
  "fpos (Num q) = (0 < q)"
| "fpos PInf = True"
| "fpos NInf = False"
| "fpos NaN = False"

text \<open>
  Round-to-nearest (ties to even) at the two ends of the double range: a magnitude of at
  least \<open>2^1024 - 2^970\<close> becomes an infinity, one of at most \<open>2^-1075\<close> becomes zero.
\<close>

definition round_double :: "rat \<Rightarrow> pyfloat" where
  "round_double q =
     (if 2 ^ 1024 - 2 ^ 970 \<le> \<bar>q\<bar> then (if 0 < q then PInf else NInf)
      else if \<bar>q\<bar> \<le> 1 / 2 ^ 1075 then Num 0
      else Num q)"

text \<open>
  \<^verbatim>\<open>float(s)\<close> on a string. \<open>None\<close> is the \<^verbatim>\<open>ValueError\<close>, the only exception the
  builtin raises on a string. CPython first checks that every underscore stands between
  two digits and removes them, then strips the C-locale whitespace, then reads an
  optional sign followed by \<^verbatim>\<open>inf\<close>, \<^verbatim>\<open>infinity\<close> or \<^verbatim>\<open>nan\<close> in any letter case, or
  by a decimal numeral with an optional fraction and an optional exponent; the whole
  string has to be used up.
\<close>

definition c_isspace :: "char \<Rightarrow> bool" where
  "c_isspace c = (c \<in> set [CHR 0x09, CHR 0x0A, CHR 0x0B, CHR 0x0C, CHR 0x0D, CHR '' ''])"

fun underscores_ok :: "char \<Rightarrow> string \<Rightarrow> bool" where
  "underscores_ok prev [] = (prev \<noteq> CHR ''_'')"
| "underscores_ok prev (c # cs) =
     ((if c = CHR ''_'' then isdigit prev else (prev = CHR ''_'' \<longrightarrow> isdigit c))
      \<and> underscores_ok c cs)"

definition parse_sign :: "string \<Rightarrow> bool \<times> string" where
  "parse_sign s =
     (case s of
        [] \<Rightarrow> (False, s)
      | c # cs \<Rightarrow>
          if c = CHR ''-'' then (True, cs)
          else if c = CHR ''+'' then (False, cs)
          else (False, s))"

definition parse_exponent :: "rat \<Rightarrow> string \<Rightarrow> rat option" where
  "parse_exponent mant s =
     (case s of
        [] \<Rightarrow> Some mant
      | e # es \<Rightarrow>
          if e \<in> set ''eE'' then
            (let (neg, ds) = parse_sign es in
             if ds \<noteq> [] \<and> list_all isdigit ds
             then Some (if neg then mant / 10 ^ digits_val ds else mant * 10 ^ digits_val ds)
             else None)
          else None)"

definition parse_decimal :: "string \<Rightarrow> rat option" where
  "parse_decimal s =
     (let ip = takeWhile isdigit s;
          r1 = dropWhile isdigit s;
          (fp, r2) = (case r1 of
                        [] \<Rightarrow> ([], r1)
                      | c # cs \<Rightarrow>
                          if c = CHR ''.'' then (takeWhile isdigit cs, dropWhile isdigit cs)
                          else ([], r1))
      in if ip = [] \<and> fp = [] then None
         else parse_exponent (of_nat (digits_val (ip @ fp)) / 10 ^ length fp) r2)"

definition py_float :: "string \<Rightarrow> pyfloat option" where
  "py_float s =
     (if \<not> underscores_ok (CHR 0x00) s then None
      else
        let t = strip_class c_isspace (filter (\<lambda>c. c \<noteq> CHR ''_'') s);
            (neg, body) = parse_sign t
        in if upper body = ''INF'' \<or> upper body = ''INFINITY''
           then Some (if neg then NInf else PInf)
           else if upper body = ''NAN'' then Some NaN
           else (case parse_decimal body of
                   None \<Rightarrow> None
                 | Some q \<Rightarrow> Some (round_double (if neg then - q else q))))"

subsection \<open>Amount parser\<close>

definition parse_brl_amount :: "string \<Rightarrow> pyfloat option" where
  "parse_brl_amount raw =
     (if raw = [] then None
      else
        let txt = strip raw;
            txt = strip (replace ''R$'' '''' txt);
            is_negative = contains txt ''-'';
            txt = replace ''-'' '''' txt;
            txt = replace '','' ''.'' (replace ''.'' '''' txt)
        in (case py_float txt of
              None \<Rightarrow> None
            | Some v \<Rightarrow> Some (if is_negative then fneg v else v)))"

subsection \<open>Date parser\<close>

text \<open>
  The \<^verbatim>\<open>datetime\<close> that \<^verbatim>\<open>strptime\<close> builds from a day, a month and a year; its time
  of day is midnight and is left out.
\<close>

record datetime =
  year :: nat
  month :: nat
  day :: nat

definition is_leap :: "nat \<Rightarrow> bool" where
  "is_leap y = (y mod 4 = 0 \<and> (y mod 100 \<noteq> 0 \<or> y mod 400 = 0))"

definition days_in_month :: "nat \<Rightarrow> nat \<Rightarrow> nat" where
  "days_in_month y m =
     (if m = 2 then (if is_leap y then 29 else 28)
      else if m \<in> set [4, 6, 9, 11] then 30
      else 31)"

text \<open>The range check of the \<^verbatim>\<open>datetime\<close> constructor (years 1 to 9999).\<close>

definition valid_date :: "nat \<Rightarrow> nat \<Rightarrow> nat \<Rightarrow> bool" where
  "valid_date y m d =
     (1 \<le> y \<and> y \<le> 9999 \<and> 1 \<le> m \<and> m \<le> 12 \<and> 1 \<le> d \<and> d \<le> days_in_month y m)"

text \<open>
  \<^verbatim>\<open>strptime\<close> turns a format into a regular expression and matches it at the start of
  the string. Each directive is given as the list of its matches in the order in which
  the backtracking matcher tries the alternatives:
  \<^verbatim>\<open>%d\<close> is \<^verbatim>\<open>3[0-1]|[1-2]\d|0[1-9]|[1-9]| [1-9]\<close>,
  \<^verbatim>\<open>%m\<close> is \<^verbatim>\<open>1[0-2]|0[1-9]|[1-9]\<close>, \<^verbatim>\<open>%Y\<close> is \<^verbatim>\<open>\d\d\d\d\<close> and \<^verbatim>\<open>%y\<close> is
  \<^verbatim>\<open>\d\d\<close>, where a two-digit year up to 68 is in the 2000s and one from 69 in the 1900s.
\<close>

definition re_pair :: "string \<Rightarrow> string \<Rightarrow> string \<Rightarrow> (nat \<times> string) list" where
  "re_pair first second s =
     (case s of
        a # b # r \<Rightarrow> if a \<in> set first \<and> b \<in> set second then [(digits_val [a, b], r)] else []
      | _ \<Rightarrow> [])"

definition re_single :: "string \<Rightarrow> string \<Rightarrow> (nat \<times> string) list" where
  "re_single cls s =
     (case s of
        a # r \<Rightarrow> if a \<in> set cls then [(digit_val a, r)] else []
      | [] \<Rightarrow> [])"

definition re_literal :: "char \<Rightarrow> string \<Rightarrow> string list" where
  "re_literal c s = (case s of [] \<Rightarrow> [] | a # r \<Rightarrow> if a = c then [r] else [])"

definition re_day :: "string \<Rightarrow> (nat \<times> string) list" where
  "re_day s =
     re_pair ''3'' ''01'' s @ re_pair ''12'' ''0123456789'' s @ re_pair ''0'' ''123456789'' s
     @ re_single ''123456789'' s
     @ concat (map (re_single ''123456789'') (re_literal CHR '' '' s))"

definition re_month :: "string \<Rightarrow> (nat \<times> string) list" where
  "re_month s =
     re_pair ''1'' ''012'' s @ re_pair ''0'' ''123456789'' s @ re_single ''123456789'' s"

datatype year_directive = Y4 | Y2

fun re_year :: "year_directive \<Rightarrow> string \<Rightarrow> (nat \<times> string) list" where
  "re_year Y4 s =
     (case s of
        a # b # c # d # r \<Rightarrow>
          if list_all isdigit [a, b, c, d] then [(digits_val [a, b, c, d], r)] else []
      | _ \<Rightarrow> [])"
| "re_year Y2 s =
     (case s of
        a # b # r \<Rightarrow>
          if list_all isdigit [a, b]
          then [(let y = digits_val [a, b] in if y \<le> 68 then 2000 + y else 1900 + y, r)]
          else []
      | _ \<Rightarrow> [])"

text \<open>
  \<^verbatim>\<open>datetime.strptime(data_string, "%d/%m/" + year)\<close>. \<open>None\<close> is the \<^verbatim>\<open>ValueError\<close>
  raised when the string does not match, when unconverted data remains after the match,
  or when the numbers are no calendar date.
\<close>

definition strptime :: "string \<Rightarrow> year_directive \<Rightarrow> datetime option" where
  "strptime data_string fmt =
     (case [(d, m, y, r5).
              (d, r1) \<leftarrow> re_day data_string, r2 \<leftarrow> re_literal CHR ''/'' r1,
              (m, r3) \<leftarrow> re_month r2, r4 \<leftarrow> re_literal CHR ''/'' r3,
              (y, r5) \<leftarrow> re_year fmt r4] of
        [] \<Rightarrow> None
      | (d, m, y, r5) # _ \<Rightarrow>
          if r5 \<noteq> [] then None
          else if valid_date y m d then Some \<lparr>year = y, month = m, day = d\<rparr>
          else None)"

text \<open>The loop of \<^verbatim>\<open>parse_date\<close> over the formats.\<close>

fun try_formats :: "string \<Rightarrow> year_directive list \<Rightarrow> datetime option" where
  "try_formats raw [] = None"
| "try_formats raw (fmt # fmts) =
     (case strptime raw fmt of
        Some d \<Rightarrow> Some d
      | None \<Rightarrow> try_formats raw fmts)"

definition parse_date :: "string \<Rightarrow> datetime option" where
  "parse_date raw = try_formats (strip raw) [Y4, Y2]"

subsection \<open>Merchant normaliser\<close>

definition NORMALIZATION_PREFIXES :: "string list" where
  "NORMALIZATION_PREFIXES =
     [''PIX ENVIADO'',
      ''PIX RECEBIDO'',
      ''PAGAMENTO DE BOLETO'',
      ''PAGAMENTO BOLETO'',
      ''PAGTO BOLETO'',
      ''CREDITO DE SALARIO'',
      ''DEBITO AUT.'',
      ''COMPRA CARTAO'']"

text \<open>The loop over the prefixes: the first prefix the text starts with is cut off, the
  separators around the remainder are stripped, and the function returns.\<close>

fun strip_known_prefix :: "string \<Rightarrow> string list \<Rightarrow> string option" where
  "strip_known_prefix up [] = None"
| "strip_known_prefix up (p # ps) =
     (if startswith up p
      then Some (collapse_ws (strip_separators (drop (length p) up)))
      else strip_known_prefix up ps)"

definition normalize_merchant :: "string \<Rightarrow> string" where
  "normalize_merchant description =
     (let text = strip (collapse_ws description);
          up = upper text
      in case strip_known_prefix up NORMALIZATION_PREFIXES of
           Some trimmed \<Rightarrow> trimmed
         | None \<Rightarrow> collapse_ws up)"

subsection \<open>Transactions\<close>

record transaction =
  date :: datetime
  description_full :: string
  merchant_normalized :: string
  txn_type :: string
  amount :: pyfloat
  category :: "string option"

text \<open>
  The end of the loop body, which the table row parser (lines 230 to 252) and the text
  line parser (lines 312 to 334) share word for word: the description is normalised, a
  debit is appended when \<^verbatim>\<open>abs(debit) > 0\<close>, then a credit when \<^verbatim>\<open>abs(credit) > 0\<close>.
  The result is the list of the transactions that the body appends.
\<close>

definition emit_transactions ::
  "datetime \<Rightarrow> string \<Rightarrow> pyfloat option \<Rightarrow> pyfloat option \<Rightarrow> transaction list" where
  "emit_transactions d description_raw credit debit =
     (let description = strip (collapse_ws description_raw);
          merchant = normalize_merchant description
      in (case debit of
            None \<Rightarrow> []
          | Some dv \<Rightarrow>
              if fpos (fabs dv)
              then [\<lparr>date = d, description_full = description, merchant_normalized = merchant,
                     txn_type = ''debit'', amount = fabs dv, category = None\<rparr>]
              else [])
         @ (case credit of
              None \<Rightarrow> []
            | Some cv \<Rightarrow>
                if fpos (fabs cv)
                then [\<lparr>date = d, description_full = description, merchant_normalized = merchant,
                       txn_type = ''credit'', amount = cv, category = None\<rparr>]
                else []))"

subsection \<open>Table row parser\<close>

text \<open>\<^verbatim>\<open>sep.join(xs)\<close>\<close>

fun join :: "string \<Rightarrow> string list \<Rightarrow> string" where
  "join sep [] = []"
| "join sep [x] = x"
| "join sep (x # y # ys) = x @ sep @ join sep (y # ys)"

definition is_header_row :: "string list \<Rightarrow> bool" where
  "is_header_row row =
     (let header_join = join '' '' (map upper row);
          header_norm = strip_accents header_join
      in contains header_norm ''DATA'' \<and> contains header_norm ''DESCRI''
         \<and> contains header_norm ''CREDITO'')"

text \<open>The search for the header row; \<open>idx\<close> counts the rows passed.\<close>

fun find_header :: "nat \<Rightarrow> string list list \<Rightarrow> nat option" where
  "find_header idx [] = None"
| "find_header idx (row # rows) =
     (if is_header_row row then Some idx else find_header (Suc idx) rows)"

text \<open>The if/elif chain that decides the key a header cell is stored under.\<close>

definition cell_role :: "string \<Rightarrow> string option" where
  "cell_role col =
     (let col_upper = upper col;
          col_norm = strip_accents col_upper
      in if contains col_norm ''DATA'' then Some ''date''
         else if contains col_norm ''DESCRI'' then Some ''description''
         else if contains col_norm ''CREDITO'' then Some ''credit''
         else if contains col_norm ''DEBITO'' then Some ''debit''
         else None)"

text \<open>The loop over \<^verbatim>\<open>enumerate(header)\<close> that fills the dictionary \<^verbatim>\<open>col_map\<close>.\<close>

fun build_col_map :: "(string \<rightharpoonup> nat) \<Rightarrow> nat \<Rightarrow> string list \<Rightarrow> (string \<rightharpoonup> nat)" where
  "build_col_map col_map i [] = col_map"
| "build_col_map col_map i (col # cols) =
     build_col_map (case cell_role col of
                      Some k \<Rightarrow> col_map(k \<mapsto> i)
                    | None \<Rightarrow> col_map) (Suc i) cols"

text \<open>
  The first half of the loop body over the data rows: the four cells are read and
  parsed. \<open>None\<close> is a \<^verbatim>\<open>continue\<close>; otherwise the date, the raw description and the two
  parsed amounts are handed on.
\<close>

definition table_row_fields ::
  "nat \<Rightarrow> nat \<Rightarrow> nat \<Rightarrow> nat \<Rightarrow> string list \<Rightarrow> string list
     \<Rightarrow> (datetime \<times> string \<times> pyfloat option \<times> pyfloat option) option" where
  "table_row_fields date_col description_col credit_col debit_col header row =
     (if length row < length header then None
      else
        let date_raw = row ! date_col;
            description_raw = row ! description_col;
            credit_raw = row ! credit_col;
            debit_raw = row ! debit_col
        in if date_raw = [] \<or> description_raw = [] then None
           else (case parse_date date_raw of
                   None \<Rightarrow> None
                 | Some d \<Rightarrow>
                     let credit = parse_brl_amount credit_raw;
                         debit = parse_brl_amount debit_raw
                     in if credit = None \<and> debit = None then None
                        else Some (d, description_raw, credit, debit)))"

definition table_row_transactions ::
  "nat \<Rightarrow> nat \<Rightarrow> nat \<Rightarrow> nat \<Rightarrow> string list \<Rightarrow> string list \<Rightarrow> transaction list" where
  "table_row_transactions date_col description_col credit_col debit_col header row =
     (case table_row_fields date_col description_col credit_col debit_col header row of
        None \<Rightarrow> []
      | Some (d, description_raw, credit, debit) \<Rightarrow>
          emit_transactions d description_raw credit debit)"

text \<open>The loop over the rows after the header, with the list \<^verbatim>\<open>transactions\<close> it
  appends to.\<close>

fun table_rows ::
  "nat \<Rightarrow> nat \<Rightarrow> nat \<Rightarrow> nat \<Rightarrow> string list \<Rightarrow> string list list \<Rightarrow> transaction list
     \<Rightarrow> transaction list" where
  "table_rows dc sc cc bc header [] transactions = transactions"
| "table_rows dc sc cc bc header (row # rows) transactions =
     table_rows dc sc cc bc header rows
       (transactions @ table_row_transactions dc sc cc bc header row)"

definition parse_transactions_from_tables :: "string list list \<Rightarrow> transaction list" where
  "parse_transactions_from_tables tables =
     (if tables = [] then []
      else (case find_header 0 tables of
              None \<Rightarrow> []
            | Some header_row_index \<Rightarrow>
                let header = tables ! header_row_index;
                    col_map = build_col_map Map.empty 0 header
                in (case (col_map ''date'', col_map ''description'',
                          col_map ''credit'', col_map ''debit'') of
                      (Some dc, Some sc, Some cc, Some bc) \<Rightarrow>
                        table_rows dc sc cc bc header (drop (header_row_index + 1) tables) []
                    | _ \<Rightarrow> [])))"

subsection \<open>Text line parser\<close>

text \<open>
  The pattern \<^verbatim>\<open>-?\d{1,3}(?:\.\d{3})*,\d{2}\<close>, matched at the start of a string. Each
  function returns the length of the match of its part of the pattern followed by the
  rest of the pattern, and tries the choices in the order of the backtracking matcher:
  the greedy one first.
\<close>

definition re_cents :: "string \<Rightarrow> nat option" where
  "re_cents s =
     (case s of
        a # b # c # r \<Rightarrow> if a = CHR '','' \<and> isdigit b \<and> isdigit c then Some 3 else None
      | _ \<Rightarrow> None)"

fun re_groups :: "string \<Rightarrow> nat option" where
  "re_groups (a # b # c # d # r) =
     (if a = CHR ''.'' \<and> isdigit b \<and> isdigit c \<and> isdigit d
      then (case re_groups r of
              Some n \<Rightarrow> Some (4 + n)
            | None \<Rightarrow> re_cents (a # b # c # d # r))
      else re_cents (a # b # c # d # r))"
| "re_groups s = re_cents s"

fun first_some :: "'a option list \<Rightarrow> 'a option" where
  "first_some [] = None"
| "first_some (None # xs) = first_some xs"
| "first_some (Some x # xs) = Some x"

definition re_unsigned :: "string \<Rightarrow> nat option" where
  "re_unsigned s =
     first_some
       (map (\<lambda>j. if j \<le> length s \<and> list_all isdigit (take j s)
                 then map_option (\<lambda>n. j + n) (re_groups (drop j s))
                 else None)
            [3, 2, 1])"

definition re_money :: "string \<Rightarrow> nat option" where
  "re_money s =
     first_some
       [case s of
          [] \<Rightarrow> None
        | c # cs \<Rightarrow> if c = CHR ''-'' then map_option Suc (re_unsigned cs) else None,
        re_unsigned s]"

text \<open>
  \<^verbatim>\<open>money_pattern.finditer(raw)\<close>: the matches from left to right as pairs of start and
  end. \<open>pos\<close> is the index of the head of the string and \<open>skip\<close> the number of
  characters that still belong to the match found last, where no new match starts.
\<close>

fun money_finditer :: "nat \<Rightarrow> nat \<Rightarrow> string \<Rightarrow> (nat \<times> nat) list" where
  "money_finditer pos skip [] = []"
| "money_finditer pos skip (c # cs) =
     (if 0 < skip then money_finditer (Suc pos) (skip - 1) cs
      else (case re_money (c # cs) of
              Some n \<Rightarrow> (pos, pos + n) # money_finditer (Suc pos) (n - 1) cs
            | None \<Rightarrow> money_finditer (Suc pos) 0 cs))"

text \<open>
  \<^verbatim>\<open>re.match(r"(\d{2}/\d{2}/\d{4})\s+(.*)", raw)\<close> with its two groups: the date, then
  after the whitespace the rest up to the first line feed.
\<close>

definition re_leading_date :: "string \<Rightarrow> (string \<times> string) option" where
  "re_leading_date raw =
     (case raw of
        d1 # d2 # s1 # m1 # m2 # s2 # y1 # y2 # y3 # y4 # w # r \<Rightarrow>
          if list_all isdigit [d1, d2, m1, m2, y1, y2, y3, y4]
             \<and> s1 = CHR ''/'' \<and> s2 = CHR ''/'' \<and> isspace w
          then Some ([d1, d2, s1, m1, m2, s2, y1, y2, y3, y4],
                     takeWhile (\<lambda>c. c \<noteq> CHR 0x0A) (dropWhile isspace r))
          else None
      | _ \<Rightarrow> None)"

text \<open>The slice \<^verbatim>\<open>s[i:j]\<close> for indices that are not negative.\<close>

definition slice :: "string \<Rightarrow> nat \<Rightarrow> nat \<Rightarrow> string" where
  "slice s i j = take (j - i) (drop i s)"

text \<open>
  The first half of the loop body over the lines, up to the parsed amounts; \<open>None\<close> is
  a \<^verbatim>\<open>continue\<close>.
\<close>

definition text_line_fields ::
  "string \<Rightarrow> (datetime \<times> string \<times> pyfloat option \<times> pyfloat option) option" where
  "text_line_fields line =
     (let raw = strip line in
      if raw = [] then None
      else (case re_leading_date raw of
              None \<Rightarrow> None
            | Some (date_raw, rest) \<Rightarrow>
                (case parse_date date_raw of
                   None \<Rightarrow> None
                 | Some d \<Rightarrow>
                     let upper_norm_rest = strip_accents (upper rest) in
                     if startswith upper_norm_rest ''DATA '' then None
                     else
                       let money_matches = money_finditer 0 0 raw in
                       if length money_matches < 2 then None
                       else
                         let first_money_start = fst (hd money_matches);
                             description_raw =
                               strip (slice raw (length date_raw) first_money_start);
                             money_values = map (\<lambda>(i, j). slice raw i j) money_matches;
                             n = length money_values;
                             (credit_raw, debit_raw) =
                               (if 3 \<le> n then (money_values ! (n - 3), money_values ! (n - 2))
                                else
                                  let candidate = money_values ! (n - 2);
                                      desc_upper = strip_accents (upper description_raw)
                                  in if list_ex (contains desc_upper)
                                          [''CREDITO'', ''PIX RECEBIDO'', ''DEPOSITO'']
                                     then (candidate, [])
                                     else ([], candidate));
                             credit = (if credit_raw \<noteq> [] then parse_brl_amount credit_raw
                                       else None);
                             debit = (if debit_raw \<noteq> [] then parse_brl_amount debit_raw
                                      else None)
                         in if credit = None \<and> debit = None then None
                            else Some (d, description_raw, credit, debit))))"

definition text_line_transactions :: "string \<Rightarrow> transaction list" where
  "text_line_transactions line =
     (case text_line_fields line of
        None \<Rightarrow> []
      | Some (d, description_raw, credit, debit) \<Rightarrow>
          emit_transactions d description_raw credit debit)"

fun text_lines :: "string list \<Rightarrow> transaction list \<Rightarrow> transaction list" where
  "text_lines [] transactions = transactions"
| "text_lines (line # lines) transactions =
     text_lines lines (transactions @ text_line_transactions line)"

definition parse_transactions_from_text_lines :: "string list \<Rightarrow> transaction list" where
  "parse_transactions_from_text_lines lines = text_lines lines []"

subsection \<open>Extractors\<close>

text \<open>
  The extraction libraries are outside the repository. A call into pdfplumber, pdf2image
  or pytesseract either returns a value or raises; the exception is the left summand.
  A page is given by what its two methods return, and the library by what
  \<^verbatim>\<open>pdfplumber.open\<close> yields as pages and, when the optional imports succeeded, by
  \<^verbatim>\<open>convert_from_bytes\<close> and \<^verbatim>\<open>image_to_string\<close>.
\<close>

datatype error = LibraryError string

type_synonym bytes = string

record page =
  extract_tables :: "error + string option list list list option"
  extract_text :: "error + string option"

record library =
  pdfplumber_open :: "bytes \<Rightarrow> error + page list"
  ocr :: "((bytes \<Rightarrow> error + bytes list) \<times> (bytes \<Rightarrow> error + string)) option"

text \<open>\<^verbatim>\<open>s.splitlines()\<close>; the ASCII line boundaries are LF, VT, FF, CR, CR LF and the
  separators 0x1C to 0x1E. \<open>cur\<close> is the line read so far.\<close>

definition is_linebreak :: "char \<Rightarrow> bool" where
  "is_linebreak c =
     (c \<in> set [CHR 0x0A, CHR 0x0B, CHR 0x0C, CHR 0x0D, CHR 0x1C, CHR 0x1D, CHR 0x1E])"

fun splitlines_from :: "string \<Rightarrow> string \<Rightarrow> string list" where
  "splitlines_from cur [] = (if cur = [] then [] else [cur])"
| "splitlines_from cur [c] = (if is_linebreak c then [cur] else [cur @ [c]])"
| "splitlines_from cur (c # d # cs) =
     (if c = CHR 0x0D \<and> d = CHR 0x0A then cur # splitlines_from [] cs
      else if is_linebreak c then cur # splitlines_from [] (d # cs)
      else splitlines_from (cur @ [c]) (d # cs))"

definition splitlines :: "string \<Rightarrow> string list" where
  "splitlines s = splitlines_from [] s"

text \<open>A row is kept when it is not empty and has a cell that is not \<^verbatim>\<open>None\<close>; its
  cells become \<^verbatim>\<open>cell or ""\<close>.\<close>

definition keep_row :: "string option list \<Rightarrow> bool" where
  "keep_row row = (row \<noteq> [] \<and> list_ex (\<lambda>cell. cell \<noteq> None) row)"

definition clean_row :: "string option list \<Rightarrow> string list" where
  "clean_row row = map (\<lambda>cell. case cell of None \<Rightarrow> [] | Some c \<Rightarrow> c) row"

fun tables_of_pages :: "page list \<Rightarrow> string list list \<Rightarrow> error + string list list" where
  "tables_of_pages [] tables = Inr tables"
| "tables_of_pages (pg # pages) tables =
     (case extract_tables pg of
        Inl e \<Rightarrow> Inl e
      | Inr r \<Rightarrow>
          let page_tables = (case r of None \<Rightarrow> [] | Some ts \<Rightarrow> ts)
          in tables_of_pages pages
               (tables @ map clean_row (filter keep_row (concat page_tables))))"

definition extract_tables_from_pdf :: "library \<Rightarrow> bytes \<Rightarrow> error + string list list" where
  "extract_tables_from_pdf lib file_bytes =
     (case pdfplumber_open lib file_bytes of
        Inl e \<Rightarrow> Inl e
      | Inr pages \<Rightarrow> tables_of_pages pages [])"

fun lines_of_pages :: "page list \<Rightarrow> string list \<Rightarrow> error + string list" where
  "lines_of_pages [] lines = Inr lines"
| "lines_of_pages (pg # pages) lines =
     (case extract_text pg of
        Inl e \<Rightarrow> Inl e
      | Inr r \<Rightarrow>
          let text = (case r of None \<Rightarrow> [] | Some t \<Rightarrow> t)
          in lines_of_pages pages (lines @ splitlines text))"

definition extract_text_lines_from_pdf :: "library \<Rightarrow> bytes \<Rightarrow> error + string list" where
  "extract_text_lines_from_pdf lib file_bytes =
     (case pdfplumber_open lib file_bytes of
        Inl e \<Rightarrow> Inl e
      | Inr pages \<Rightarrow> lines_of_pages pages [])"

fun lines_of_images ::
  "(bytes \<Rightarrow> error + string) \<Rightarrow> bytes list \<Rightarrow> string list \<Rightarrow> error + string list" where
  "lines_of_images image_to_string [] lines = Inr lines"
| "lines_of_images image_to_string (img # images) lines =
     (case image_to_string img of
        Inl e \<Rightarrow> Inl e
      | Inr text \<Rightarrow> lines_of_images image_to_string images (lines @ splitlines text))"

definition extract_text_with_ocr :: "library \<Rightarrow> bytes \<Rightarrow> error + string list" where
  "extract_text_with_ocr lib file_bytes =
     (case ocr lib of
        None \<Rightarrow> Inr []
      | Some (convert_from_bytes, image_to_string) \<Rightarrow>
          (case convert_from_bytes file_bytes of
             Inl e \<Rightarrow> Inl e
           | Inr images \<Rightarrow> lines_of_images image_to_string images []))"

subsection \<open>Pipeline orchestrator and its caller\<close>

text \<open>\<^verbatim>\<open>parse_transactions_from_pdf\<close> has no exception handler: an exception of an
  extractor ends the function and is its outcome.\<close>

definition parse_transactions_from_pdf :: "library \<Rightarrow> bytes \<Rightarrow> error + transaction list" where
  "parse_transactions_from_pdf lib file_bytes =
     (case extract_tables_from_pdf lib file_bytes of
        Inl e \<Rightarrow> Inl e
      | Inr tables \<Rightarrow>
          let transactions = parse_transactions_from_tables tables in
          if transactions \<noteq> [] then Inr transactions
          else (case extract_text_lines_from_pdf lib file_bytes of
                  Inl e \<Rightarrow> Inl e
                | Inr lines \<Rightarrow>
                    let transactions = parse_transactions_from_text_lines lines in
                    if transactions \<noteq> [] then Inr transactions
                    else (case extract_text_with_ocr lib file_bytes of
                            Inl e \<Rightarrow> Inl e
                          | Inr ocr_lines \<Rightarrow>
                              if ocr_lines = [] then Inr []
                              else Inr (parse_transactions_from_text_lines ocr_lines))))"

text \<open>\<^verbatim>\<open>s.lower()\<close> and \<^verbatim>\<open>s.endswith(p)\<close>\<close>

definition lower_char :: "char \<Rightarrow> char" where
  "lower_char c =
     (case map_of (zip ''ABCDEFGHIJKLMNOPQRSTUVWXYZ'' ''abcdefghijklmnopqrstuvwxyz'') c of
        Some l \<Rightarrow> l
      | None \<Rightarrow> c)"

definition lower :: "string \<Rightarrow> string" where
  "lower s = map lower_char s"

definition endswith :: "string \<Rightarrow> string \<Rightarrow> bool" where
  "endswith s p = (length p \<le> length s \<and> drop (length s - length p) s = p)"

text \<open>
  The loop of the request handler \<^verbatim>\<open>upload\<close> over the uploaded files, each a file name
  with its content. The state is the list \<^verbatim>\<open>all_transactions\<close> and the messages
  flashed so far; this loop holds the only handler around the pipeline.
\<close>

datatype flash =
  NotPdf string
| ProcessingError string
| NoTransactionFound string

fun upload_loop ::
  "library \<Rightarrow> (string \<times> bytes) list \<Rightarrow> transaction list \<times> flash list
     \<Rightarrow> transaction list \<times> flash list" where
  "upload_loop lib [] st = st"
| "upload_loop lib ((filename, file_bytes) # files) (all_transactions, flashes) =
     (if \<not> endswith (lower filename) ''.pdf''
      then upload_loop lib files (all_transactions, flashes @ [NotPdf filename])
      else (case parse_transactions_from_pdf lib file_bytes of
              Inl e \<Rightarrow> upload_loop lib files (all_transactions, flashes @ [ProcessingError filename])
            | Inr txns \<Rightarrow>
                upload_loop lib files
                  (all_transactions @ txns,
                   if txns = [] then flashes @ [NoTransactionFound filename] else flashes)))"

subsection \<open>Example inputs\<close>

text \<open>The two statement lines of \<^verbatim>\<open>run_smoke_test\<close>.\<close>

definition smoke_line_1 :: string where
  "smoke_line_1 =
     ''15/12/2025 CREDITO DE SALARIO ACME LTDA        000000    000000      1.350,00      0,00   1.350,00''"

definition smoke_line_2 :: string where
  "smoke_line_2 =
     ''17/12/2025 PIX ENVIADO STRIPE BRASIL SOLUCOES DE 000000  000000      0,00      119,90  -2.636,87''"

text \<open>A statement line and a table whose credit column holds a negative amount.\<close>

definition reversal_line :: string where
  "reversal_line = ''15/12/2025 ESTORNO -5,00 0,00 10,00''"

definition reversal_table :: "string list list" where
  "reversal_table =
     [[''DATA'', ''DESCRICAO'', ''CREDITO'', ''DEBITO''],
      [''15/12/2025'', ''ESTORNO'', ''-5,00'', ''0,00'']]"

text \<open>A statement line and a table row with an amount in both columns.\<close>

definition compound_line :: string where
  "compound_line = ''15/12/2025 COMPRA 5,00 7,00 10,00''"

definition compound_header :: "string list" where
  "compound_header = [''DATA'', ''DESCRICAO'', ''CREDITO'', ''DEBITO'']"

definition compound_row :: "string list" where
  "compound_row = [''15/12/2025'', ''COMPRA'', ''5,00'', ''7,00'']"

text \<open>A table row whose credit cell reads \<^verbatim>\<open>nan\<close>, which \<^verbatim>\<open>float\<close> accepts.\<close>

definition nan_row :: "string list" where
  "nan_row = [''15/12/2025'', ''COMPRA'', ''nan'', ''7,00'']"

text \<open>
  A library for a document of one page, given by what \<^verbatim>\<open>extract_tables\<close> and
  \<^verbatim>\<open>extract_text\<close> do on that page and, when OCR is installed, by what
  \<^verbatim>\<open>convert_from_bytes\<close> does; \<^verbatim>\<open>image_to_string\<close> recognises no text.
\<close>

definition one_page_library ::
  "(error + string option list list list option) \<Rightarrow> (error + string option)
     \<Rightarrow> (error + bytes list) option \<Rightarrow> library" where
  "one_page_library tables_result text_result convert_result =
     \<lparr>pdfplumber_open = (\<lambda>file_bytes. Inr [\<lparr>extract_tables = tables_result,
                                                extract_text = text_result\<rparr>]),
      ocr = map_option (\<lambda>r. ((\<lambda>file_bytes. r), (\<lambda>img. Inr []))) convert_result\<rparr>"

text \<open>The table of one page with the header and the row above, and the text of a page
  with the two lines of the smoke test.\<close>

definition compound_page_tables :: "string option list list list" where
  "compound_page_tables = [[map Some compound_header, map Some compound_row]]"

definition smoke_page_text :: string where
  "smoke_page_text = smoke_line_1 @ [CHR 0x0A] @ smoke_line_2"

text \<open>A header in which two cells contain \<^verbatim>\<open>DATA\<close>.\<close>

definition repeated_header :: "string list" where
  "repeated_header = [''DATA'', ''DESCRICAO'', ''CREDITO'', ''DEBITO'', ''DATA VALOR'']"

subsection \<open>Normal forms of text\<close>

text \<open>
  Two notions used to state what the whitespace functions achieve: a text in which every
  whitespace character is a blank and no two of them are adjacent, and a text without
  whitespace at either end.
\<close>

definition single_spaced :: "string \<Rightarrow> bool" where
  "single_spaced s =
     ((\<forall>c \<in> set s. isspace c \<longrightarrow> c = CHR '' '')
      \<and> (\<forall>a b. sublist [a, b] s \<longrightarrow> \<not> (isspace a \<and> isspace b)))"

definition stripped :: "string \<Rightarrow> bool" where
  "stripped s = (s = [] \<or> (\<not> isspace (hd s) \<and> \<not> isspace (last s)))"

section \<open>Properties\<close>

subsection \<open>Evaluation of the library functions on literals\<close>

lemmas string_eval =
  strip_def strip_class_def isspace_def startswith_def isdigit_def upper_def upper_char_def
  digits_val_def digit_val_def strip_accents_def nfd_def combining_def strip_separators_def

lemmas float_eval =
  py_float_def c_isspace_def parse_sign_def parse_decimal_def parse_exponent_def
  round_double_def

lemma amount_1350: "parse_brl_amount ''1.350,00'' = Some (Num 1350)"
  by (simp add: parse_brl_amount_def string_eval float_eval)


lemma amount_zero: "parse_brl_amount ''0,00'' = Some (Num 0)"
  by (simp add: parse_brl_amount_def string_eval float_eval)

lemma amount_119_90: "parse_brl_amount ''119,90'' = Some (Num (1199 / 10))"
  by (simp add: parse_brl_amount_def string_eval float_eval)

lemma amount_minus_5: "parse_brl_amount ''-5,00'' = Some (Num (- 5))"
  by (simp add: parse_brl_amount_def string_eval float_eval)



lemma date_15_12_2025: "parse_date ''15/12/2025'' = Some \<lparr>year = 2025, month = 12, day = 15\<rparr>"
  by code_simp

lemma date_17_12_2025: "parse_date ''17/12/2025'' = Some \<lparr>year = 2025, month = 12, day = 17\<rparr>"
  by code_simp

subsection \<open>Amount parser\<close>


subsection \<open>Date parser\<close>

text \<open>
  Claim C3. \<^verbatim>\<open>parse_date("15/12/2025")\<close> and \<^verbatim>\<open>parse_date("15/12/25")\<close> are both the
  15th of December 2025, \<^verbatim>\<open>parse_date("31/02/2025")\<close> is \<^verbatim>\<open>None\<close>, and in general the
  stripped string is tried with the four-digit year first, then with the two-digit
  year, and the result is \<^verbatim>\<open>None\<close> when both fail.
\<close>

theorem parse_date_formats:
  "parse_date ''15/12/2025'' = Some \<lparr>year = 2025, month = 12, day = 15\<rparr>
   \<and> parse_date ''15/12/25'' = Some \<lparr>year = 2025, month = 12, day = 15\<rparr>
   \<and> parse_date ''31/02/2025'' = None
   \<and> parse_date raw =
       (case strptime (strip raw) Y4 of
          Some d \<Rightarrow> Some d
        | None \<Rightarrow> (case strptime (strip raw) Y2 of Some d \<Rightarrow> Some d | None \<Rightarrow> None))"
proof -
  have a: "parse_date ''15/12/25'' = Some \<lparr>year = 2025, month = 12, day = 15\<rparr>"
    by code_simp
  have b: "parse_date ''31/02/2025'' = None"
    by code_simp
  have c: "parse_date raw =
       (case strptime (strip raw) Y4 of
          Some d \<Rightarrow> Some d
        | None \<Rightarrow> (case strptime (strip raw) Y2 of Some d \<Rightarrow> Some d | None \<Rightarrow> None))"
    by (simp add: parse_date_def split: option.splits)
  show ?thesis
    using date_15_12_2025 a b c by blast
qed

subsection \<open>Evaluation of the parsers on the example inputs\<close>

lemma text_line_fields_three:
  assumes "strip line = raw" and "raw \<noteq> []"
    and "re_leading_date raw = Some (date_raw, rest)"
    and "parse_date date_raw = Some d"
    and "\<not> startswith (strip_accents (upper rest)) ''DATA ''"
    and "money_finditer 0 0 raw = [(i1, j1), (i2, j2), (i3, j3)]"
    and "strip (slice raw (length date_raw) i1) = desc"
    and "slice raw i1 j1 = credit_raw" and "slice raw i2 j2 = debit_raw"
    and "credit_raw \<noteq> []" and "debit_raw \<noteq> []"
    and "parse_brl_amount credit_raw = Some c" and "parse_brl_amount debit_raw = Some b"
  shows "text_line_fields line = Some (d, desc, Some c, Some b)"
  using assms by (simp add: text_line_fields_def Let_def)

lemma emit_credit_only:
  assumes "\<not> fpos (fabs b)" and "fpos (fabs c)"
    and "strip (collapse_ws description_raw) = description"
    and "normalize_merchant description = merchant"
  shows "emit_transactions d description_raw (Some c) (Some b) =
         [\<lparr>date = d, description_full = description, merchant_normalized = merchant,
           txn_type = ''credit'', amount = c, category = None\<rparr>]"
  using assms by (simp add: emit_transactions_def Let_def)

lemma emit_debit_only:
  assumes "fpos (fabs b)" and "\<not> fpos (fabs c)"
    and "strip (collapse_ws description_raw) = description"
    and "normalize_merchant description = merchant"
  shows "emit_transactions d description_raw (Some c) (Some b) =
         [\<lparr>date = d, description_full = description, merchant_normalized = merchant,
           txn_type = ''debit'', amount = fabs b, category = None\<rparr>]"
  using assms by (simp add: emit_transactions_def Let_def)

lemma smoke_line_1_fields:
  "text_line_fields smoke_line_1 =
     Some (\<lparr>year = 2025, month = 12, day = 15\<rparr>,
           ''CREDITO DE SALARIO ACME LTDA        000000    000000'',
           Some (Num 1350), Some (Num 0))"
proof (rule text_line_fields_three)
  show "strip smoke_line_1 = smoke_line_1"
    unfolding smoke_line_1_def by code_simp
  show "smoke_line_1 \<noteq> []"
    by (simp add: smoke_line_1_def)
  show "re_leading_date smoke_line_1 = Some (''15/12/2025'', drop 11 smoke_line_1)"
    unfolding smoke_line_1_def by code_simp
  show "parse_date ''15/12/2025'' = Some \<lparr>year = 2025, month = 12, day = 15\<rparr>"
    by (rule date_15_12_2025)
  show "\<not> startswith (strip_accents (upper (drop 11 smoke_line_1))) ''DATA ''"
    unfolding smoke_line_1_def by code_simp
  show "money_finditer 0 0 smoke_line_1 = [(69, 77), (83, 87), (90, 98)]"
    unfolding smoke_line_1_def by code_simp
  show "strip (slice smoke_line_1 (length ''15/12/2025'') 69) =
        ''CREDITO DE SALARIO ACME LTDA        000000    000000''"
    unfolding smoke_line_1_def by code_simp
  show "slice smoke_line_1 69 77 = ''1.350,00''"
    unfolding smoke_line_1_def by code_simp
  show "slice smoke_line_1 83 87 = ''0,00''"
    unfolding smoke_line_1_def by code_simp
  show "parse_brl_amount ''1.350,00'' = Some (Num 1350)"
    by (rule amount_1350)
  show "parse_brl_amount ''0,00'' = Some (Num 0)"
    by (rule amount_zero)
qed simp_all

lemma smoke_line_1_transactions:
  "text_line_transactions smoke_line_1 =
     [\<lparr>date = \<lparr>year = 2025, month = 12, day = 15\<rparr>,
       description_full = ''CREDITO DE SALARIO ACME LTDA 000000 000000'',
       merchant_normalized = ''ACME LTDA 000000 000000'',
       txn_type = ''credit'', amount = Num 1350, category = None\<rparr>]"
proof -
  have a: "strip (collapse_ws ''CREDITO DE SALARIO ACME LTDA        000000    000000'') =
           ''CREDITO DE SALARIO ACME LTDA 000000 000000''"
    by code_simp
  have b: "normalize_merchant ''CREDITO DE SALARIO ACME LTDA 000000 000000'' =
           ''ACME LTDA 000000 000000''"
    by code_simp
  show ?thesis
    by (simp add: text_line_transactions_def smoke_line_1_fields emit_credit_only [OF _ _ a b])
qed

lemma smoke_line_2_fields:
  "text_line_fields smoke_line_2 =
     Some (\<lparr>year = 2025, month = 12, day = 17\<rparr>,
           ''PIX ENVIADO STRIPE BRASIL SOLUCOES DE 000000  000000'',
           Some (Num 0), Some (Num (1199 / 10)))"
proof (rule text_line_fields_three)
  show "strip smoke_line_2 = smoke_line_2"
    unfolding smoke_line_2_def by code_simp
  show "smoke_line_2 \<noteq> []"
    by (simp add: smoke_line_2_def)
  show "re_leading_date smoke_line_2 = Some (''17/12/2025'', drop 11 smoke_line_2)"
    unfolding smoke_line_2_def by code_simp
  show "parse_date ''17/12/2025'' = Some \<lparr>year = 2025, month = 12, day = 17\<rparr>"
    by (rule date_17_12_2025)
  show "\<not> startswith (strip_accents (upper (drop 11 smoke_line_2))) ''DATA ''"
    unfolding smoke_line_2_def by code_simp
  show "money_finditer 0 0 smoke_line_2 = [(69, 73), (79, 85), (87, 96)]"
    unfolding smoke_line_2_def by code_simp
  show "strip (slice smoke_line_2 (length ''17/12/2025'') 69) =
        ''PIX ENVIADO STRIPE BRASIL SOLUCOES DE 000000  000000''"
    unfolding smoke_line_2_def by code_simp
  show "slice smoke_line_2 69 73 = ''0,00''"
    unfolding smoke_line_2_def by code_simp
  show "slice smoke_line_2 79 85 = ''119,90''"
    unfolding smoke_line_2_def by code_simp
  show "parse_brl_amount ''0,00'' = Some (Num 0)"
    by (rule amount_zero)
  show "parse_brl_amount ''119,90'' = Some (Num (1199 / 10))"
    by (rule amount_119_90)
qed simp_all

lemma smoke_line_2_transactions:
  "text_line_transactions smoke_line_2 =
     [\<lparr>date = \<lparr>year = 2025, month = 12, day = 17\<rparr>,
       description_full = ''PIX ENVIADO STRIPE BRASIL SOLUCOES DE 000000 000000'',
       merchant_normalized = ''STRIPE BRASIL SOLUCOES DE 000000 000000'',
       txn_type = ''debit'', amount = Num (1199 / 10), category = None\<rparr>]"
proof -
  have a: "strip (collapse_ws ''PIX ENVIADO STRIPE BRASIL SOLUCOES DE 000000  000000'') =
           ''PIX ENVIADO STRIPE BRASIL SOLUCOES DE 000000 000000''"
    by code_simp
  have b: "normalize_merchant ''PIX ENVIADO STRIPE BRASIL SOLUCOES DE 000000 000000'' =
           ''STRIPE BRASIL SOLUCOES DE 000000 000000''"
    by code_simp
  show ?thesis
    by (simp add: text_line_transactions_def smoke_line_2_fields emit_debit_only [OF _ _ a b])
qed

lemma reversal_line_fields:
  "text_line_fields reversal_line =
     Some (\<lparr>year = 2025, month = 12, day = 15\<rparr>, ''ESTORNO'', Some (Num (- 5)), Some (Num 0))"
proof (rule text_line_fields_three)
  show "strip reversal_line = reversal_line"
    unfolding reversal_line_def by code_simp
  show "reversal_line \<noteq> []"
    by (simp add: reversal_line_def)
  show "re_leading_date reversal_line = Some (''15/12/2025'', drop 11 reversal_line)"
    unfolding reversal_line_def by code_simp
  show "parse_date ''15/12/2025'' = Some \<lparr>year = 2025, month = 12, day = 15\<rparr>"
    by (rule date_15_12_2025)
  show "\<not> startswith (strip_accents (upper (drop 11 reversal_line))) ''DATA ''"
    unfolding reversal_line_def by code_simp
  show "money_finditer 0 0 reversal_line = [(19, 24), (25, 29), (30, 35)]"
    unfolding reversal_line_def by code_simp
  show "strip (slice reversal_line (length ''15/12/2025'') 19) = ''ESTORNO''"
    unfolding reversal_line_def by code_simp
  show "slice reversal_line 19 24 = ''-5,00''"
    unfolding reversal_line_def by code_simp
  show "slice reversal_line 25 29 = ''0,00''"
    unfolding reversal_line_def by code_simp
  show "parse_brl_amount ''-5,00'' = Some (Num (- 5))"
    by (rule amount_minus_5)
  show "parse_brl_amount ''0,00'' = Some (Num 0)"
    by (rule amount_zero)
qed simp_all

lemma estorno_description: "strip (collapse_ws ''ESTORNO'') = ''ESTORNO''"
  by code_simp

lemma estorno_merchant: "normalize_merchant ''ESTORNO'' = ''ESTORNO''"
  by code_simp

lemma reversal_line_transactions:
  "text_line_transactions reversal_line =
     [\<lparr>date = \<lparr>year = 2025, month = 12, day = 15\<rparr>, description_full = ''ESTORNO'',
       merchant_normalized = ''ESTORNO'', txn_type = ''credit'', amount = Num (- 5),
       category = None\<rparr>]"
  by (simp add: text_line_transactions_def reversal_line_fields
        emit_credit_only [OF _ _ estorno_description estorno_merchant])

lemma reversal_table_header:
  "find_header 0 reversal_table = Some 0"
  "build_col_map Map.empty 0 (reversal_table ! 0) ''date'' = Some 0"
  "build_col_map Map.empty 0 (reversal_table ! 0) ''description'' = Some 1"
  "build_col_map Map.empty 0 (reversal_table ! 0) ''credit'' = Some 2"
  "build_col_map Map.empty 0 (reversal_table ! 0) ''debit'' = Some 3"
  unfolding reversal_table_def by code_simp+

lemma reversal_table_row:
  "table_row_transactions 0 (Suc 0) 2 3 (reversal_table ! 0) (reversal_table ! Suc 0) =
     [\<lparr>date = \<lparr>year = 2025, month = 12, day = 15\<rparr>, description_full = ''ESTORNO'',
       merchant_normalized = ''ESTORNO'', txn_type = ''credit'', amount = Num (- 5),
       category = None\<rparr>]"
  by (simp add: table_row_transactions_def table_row_fields_def reversal_table_def
        date_15_12_2025 amount_minus_5 amount_zero
        emit_credit_only [OF _ _ estorno_description estorno_merchant])

lemma reversal_table_transactions:
  "parse_transactions_from_tables reversal_table =
     [\<lparr>date = \<lparr>year = 2025, month = 12, day = 15\<rparr>, description_full = ''ESTORNO'',
       merchant_normalized = ''ESTORNO'', txn_type = ''credit'', amount = Num (- 5),
       category = None\<rparr>]"
proof -
  have rows: "drop (Suc 0) reversal_table = [reversal_table ! Suc 0]"
    by (simp add: reversal_table_def)
  have "reversal_table \<noteq> []"
    by (simp add: reversal_table_def)
  then show ?thesis
    by (simp add: parse_transactions_from_tables_def reversal_table_header rows
          reversal_table_row Let_def)
qed

subsection \<open>The loops as concatenation of the per-row results\<close>

lemma text_lines_append:
  "text_lines lines acc = acc @ concat (map text_line_transactions lines)"
  by (induction lines arbitrary: acc) simp_all

lemma parse_text_lines_concat:
  "parse_transactions_from_text_lines lines = concat (map text_line_transactions lines)"
  by (simp add: parse_transactions_from_text_lines_def text_lines_append)

lemma table_rows_append:
  "table_rows dc sc cc bc header rows acc =
     acc @ concat (map (table_row_transactions dc sc cc bc header) rows)"
  by (induction rows arbitrary: acc) simp_all

text \<open>The table parser on a table whose first header row is \<open>header\<close>, with all
  four roles mapped: the rows behind the header are processed one by one.\<close>

lemma find_header_append:
  assumes "\<not> list_ex is_header_row pre" and "is_header_row header"
  shows "find_header i (pre @ header # rows) = Some (i + length pre)"
  using assms by (induction pre arbitrary: i) simp_all

lemma parse_tables_behind_header:
  assumes "\<not> list_ex is_header_row pre" and "is_header_row header"
    and "build_col_map Map.empty 0 header ''date'' = Some dc"
    and "build_col_map Map.empty 0 header ''description'' = Some sc"
    and "build_col_map Map.empty 0 header ''credit'' = Some cc"
    and "build_col_map Map.empty 0 header ''debit'' = Some bc"
  shows "parse_transactions_from_tables (pre @ header # rows) =
           concat (map (table_row_transactions dc sc cc bc header) rows)"
proof -
  have "find_header 0 (pre @ header # rows) = Some (length pre)"
    using find_header_append [OF assms(1,2), of 0 rows] by simp
  moreover have "(pre @ header # rows) ! length pre = header"
    by simp
  moreover have "drop (length pre + 1) (pre @ header # rows) = rows"
    by simp
  ultimately show ?thesis
    using assms(3-6)
    by (simp add: parse_transactions_from_tables_def Let_def table_rows_append)
qed

subsection \<open>Sign of the emitted amounts\<close>

lemma fpos_fabs_fabs: "fpos (fabs x) \<Longrightarrow> fpos (fabs (fabs x))"
  by (cases x) simp_all

lemma emitted_amounts:
  assumes "t \<in> set (emit_transactions d desc credit debit)"
  shows "fpos (fabs (amount t))" and "txn_type t = ''debit'' \<Longrightarrow> fpos (amount t)"
  using assms
  by (auto simp: emit_transactions_def Let_def fpos_fabs_fabs split: option.splits if_splits)

text \<open>What does hold of every transaction the text line parser returns: its amount has a
  magnitude above zero, and the amount itself is above zero when it is a debit.\<close>

lemma text_line_amounts:
  assumes "t \<in> set (parse_transactions_from_text_lines lines)"
  shows "fpos (fabs (amount t)) \<and> (txn_type t = ''debit'' \<longrightarrow> fpos (amount t))"
proof -
  from assms obtain line where "t \<in> set (text_line_transactions line)"
    by (auto simp: parse_text_lines_concat)
  then obtain d desc credit debit where "t \<in> set (emit_transactions d desc credit debit)"
    by (auto simp: text_line_transactions_def split: option.splits)
  then show ?thesis
    using emitted_amounts by blast
qed

text \<open>
  Claim C1. Every emitted transaction has an amount above zero. The debit branch stores
  \<^verbatim>\<open>abs(debit)\<close>, but the credit branch tests \<^verbatim>\<open>abs(credit) > 0\<close> and then stores
  \<^verbatim>\<open>credit\<close> itself: on the statement line
  \<^verbatim>\<open>15/12/2025 ESTORNO -5,00 0,00 10,00\<close> and on the table with the same cells both
  parsers emit one credit transaction whose amount is -5, which is not above zero.
\<close>

theorem negative_credit_is_emitted:
  "map amount (parse_transactions_from_text_lines [reversal_line]) = [Num (- 5)]
   \<and> map txn_type (parse_transactions_from_text_lines [reversal_line]) = [''credit'']
   \<and> map amount (parse_transactions_from_tables reversal_table) = [Num (- 5)]
   \<and> map txn_type (parse_transactions_from_tables reversal_table) = [''credit'']
   \<and> \<not> fpos (Num (- 5))"
  by (simp add: parse_text_lines_concat reversal_line_transactions reversal_table_transactions)

subsection \<open>The smoke test\<close>

text \<open>
  Claim C4, as stated: on the two lines of the smoke test the merchants of the two
  transactions are \<^verbatim>\<open>ACME LTDA\<close> and \<^verbatim>\<open>STRIPE BRASIL SOLUCOES DE\<close>. They are not: the
  two tokens \<^verbatim>\<open>000000\<close> before the amounts are no money matches, so they stay in the
  description and in the merchant.
\<close>

theorem smoke_test_merchants_counterexample:
  "map merchant_normalized (parse_transactions_from_text_lines [smoke_line_1, smoke_line_2])
     \<noteq> [''ACME LTDA'', ''STRIPE BRASIL SOLUCOES DE'']"
  by (simp add: parse_text_lines_concat smoke_line_1_transactions smoke_line_2_transactions)

text \<open>
  Claim C4, amended. On the two lines of the smoke test the text line parser returns
  exactly two transactions: a credit of 1350.00 dated 2025-12-15 with merchant
  \<^verbatim>\<open>ACME LTDA 000000 000000\<close>, then a debit of 119.90 dated 2025-12-17 with merchant
  \<^verbatim>\<open>STRIPE BRASIL SOLUCOES DE 000000 000000\<close>.
\<close>

theorem smoke_test_transactions:
  "parse_transactions_from_text_lines [smoke_line_1, smoke_line_2] =
     [\<lparr>date = \<lparr>year = 2025, month = 12, day = 15\<rparr>,
       description_full = ''CREDITO DE SALARIO ACME LTDA 000000 000000'',
       merchant_normalized = ''ACME LTDA 000000 000000'',
       txn_type = ''credit'', amount = Num 1350, category = None\<rparr>,
      \<lparr>date = \<lparr>year = 2025, month = 12, day = 17\<rparr>,
       description_full = ''PIX ENVIADO STRIPE BRASIL SOLUCOES DE 000000 000000'',
       merchant_normalized = ''STRIPE BRASIL SOLUCOES DE 000000 000000'',
       txn_type = ''debit'', amount = Num (1199 / 10), category = None\<rparr>]"
  by (simp add: parse_text_lines_concat smoke_line_1_transactions smoke_line_2_transactions)

subsection \<open>Rows with an amount in both columns\<close>

lemma amount_5: "parse_brl_amount ''5,00'' = Some (Num 5)"
  by (simp add: parse_brl_amount_def string_eval float_eval)

lemma amount_7: "parse_brl_amount ''7,00'' = Some (Num 7)"
  by (simp add: parse_brl_amount_def string_eval float_eval)

lemma compound_line_fields:
  "text_line_fields compound_line =
     Some (\<lparr>year = 2025, month = 12, day = 15\<rparr>, ''COMPRA'', Some (Num 5), Some (Num 7))"
proof (rule text_line_fields_three)
  show "strip compound_line = compound_line"
    unfolding compound_line_def by code_simp
  show "compound_line \<noteq> []"
    by (simp add: compound_line_def)
  show "re_leading_date compound_line = Some (''15/12/2025'', drop 11 compound_line)"
    unfolding compound_line_def by code_simp
  show "parse_date ''15/12/2025'' = Some \<lparr>year = 2025, month = 12, day = 15\<rparr>"
    by (rule date_15_12_2025)
  show "\<not> startswith (strip_accents (upper (drop 11 compound_line))) ''DATA ''"
    unfolding compound_line_def by code_simp
  show "money_finditer 0 0 compound_line = [(18, 22), (23, 27), (28, 33)]"
    unfolding compound_line_def by code_simp
  show "strip (slice compound_line (length ''15/12/2025'') 18) = ''COMPRA''"
    unfolding compound_line_def by code_simp
  show "slice compound_line 18 22 = ''5,00''"
    unfolding compound_line_def by code_simp
  show "slice compound_line 23 27 = ''7,00''"
    unfolding compound_line_def by code_simp
  show "parse_brl_amount ''5,00'' = Some (Num 5)"
    by (rule amount_5)
  show "parse_brl_amount ''7,00'' = Some (Num 7)"
    by (rule amount_7)
qed simp_all

lemma compound_row_fields:
  "table_row_fields 0 1 2 3 compound_header compound_row =
     Some (\<lparr>year = 2025, month = 12, day = 15\<rparr>, ''COMPRA'', Some (Num 5), Some (Num 7))"
  by (simp add: table_row_fields_def compound_header_def compound_row_def
        date_15_12_2025 amount_5 amount_7)

lemma compra_description: "strip (collapse_ws ''COMPRA'') = ''COMPRA''"
  by code_simp

lemma compra_merchant: "normalize_merchant ''COMPRA'' = ''COMPRA''"
  by code_simp

lemma emit_both:
  assumes "fpos (fabs c)" and "fpos (fabs b)"
  shows "emit_transactions d desc (Some c) (Some b) =
     [\<lparr>date = d, description_full = strip (collapse_ws desc),
       merchant_normalized = normalize_merchant (strip (collapse_ws desc)),
       txn_type = ''debit'', amount = fabs b, category = None\<rparr>,
      \<lparr>date = d, description_full = strip (collapse_ws desc),
       merchant_normalized = normalize_merchant (strip (collapse_ws desc)),
       txn_type = ''credit'', amount = c, category = None\<rparr>]"
  using assms by (simp add: emit_transactions_def Let_def)

lemma compound_line_transactions:
  "text_line_transactions compound_line =
     [\<lparr>date = \<lparr>year = 2025, month = 12, day = 15\<rparr>, description_full = ''COMPRA'',
       merchant_normalized = ''COMPRA'', txn_type = ''debit'', amount = Num 7,
       category = None\<rparr>,
      \<lparr>date = \<lparr>year = 2025, month = 12, day = 15\<rparr>, description_full = ''COMPRA'',
       merchant_normalized = ''COMPRA'', txn_type = ''credit'', amount = Num 5,
       category = None\<rparr>]"
  by (simp add: text_line_transactions_def compound_line_fields emit_both
        compra_description compra_merchant)

lemma compound_row_transactions:
  "table_row_transactions 0 1 2 3 compound_header compound_row =
     [\<lparr>date = \<lparr>year = 2025, month = 12, day = 15\<rparr>, description_full = ''COMPRA'',
       merchant_normalized = ''COMPRA'', txn_type = ''debit'', amount = Num 7,
       category = None\<rparr>,
      \<lparr>date = \<lparr>year = 2025, month = 12, day = 15\<rparr>, description_full = ''COMPRA'',
       merchant_normalized = ''COMPRA'', txn_type = ''credit'', amount = Num 5,
       category = None\<rparr>]"
  unfolding table_row_transactions_def compound_row_fields
  by (simp add: emit_both compra_description compra_merchant)

lemma amount_nan: "parse_brl_amount ''nan'' = Some NaN"
  by (simp add: parse_brl_amount_def string_eval float_eval)

lemma compound_header_columns:
  "is_header_row compound_header"
  "build_col_map Map.empty 0 compound_header ''date'' = Some 0"
  "build_col_map Map.empty 0 compound_header ''description'' = Some 1"
  "build_col_map Map.empty 0 compound_header ''credit'' = Some 2"
  "build_col_map Map.empty 0 compound_header ''debit'' = Some 3"
  unfolding compound_header_def by code_simp+

lemma no_header_before: "\<not> list_ex is_header_row []"
  by simp

lemma parse_behind_compound_header:
  "parse_transactions_from_tables (compound_header # rows) =
     concat (map (table_row_transactions 0 1 2 3 compound_header) rows)"
  using parse_tables_behind_header [OF no_header_before compound_header_columns, of rows]
  by simp

lemma nan_row_transactions:
  "table_row_transactions 0 1 2 3 compound_header nan_row =
     [\<lparr>date = \<lparr>year = 2025, month = 12, day = 15\<rparr>, description_full = ''COMPRA'',
       merchant_normalized = ''COMPRA'', txn_type = ''debit'', amount = Num 7,
       category = None\<rparr>]"
proof -
  have fields: "table_row_fields 0 1 2 3 compound_header nan_row =
      Some (\<lparr>year = 2025, month = 12, day = 15\<rparr>, ''COMPRA'', Some NaN, Some (Num 7))"
    by (simp add: table_row_fields_def compound_header_def nan_row_def
          date_15_12_2025 amount_nan amount_7)
  have emit: "emit_transactions \<lparr>year = 2025, month = 12, day = 15\<rparr> ''COMPRA''
      (Some NaN) (Some (Num 7)) =
     [\<lparr>date = \<lparr>year = 2025, month = 12, day = 15\<rparr>, description_full = ''COMPRA'',
       merchant_normalized = ''COMPRA'', txn_type = ''debit'', amount = fabs (Num 7),
       category = None\<rparr>]"
    by (rule emit_debit_only [OF _ _ compra_description compra_merchant]) simp_all
  show ?thesis
    unfolding table_row_transactions_def fields by (simp add: emit)
qed

text \<open>
  Claim C5, as stated: a consumed row whose parsed credit and parsed debit both have a
  magnitude that is not zero gives exactly two transactions. The code emits a column
  when \<^verbatim>\<open>abs(x) > 0\<close>, and that comparison is false for NaN: the cell \<^verbatim>\<open>nan\<close> is
  parsed by \<^verbatim>\<open>float\<close> to NaN, whose magnitude is not zero, and the row then gives the
  debit only.
\<close>

theorem nan_credit_counterexample:
  "parse_brl_amount (nan_row ! 2) = Some NaN \<and> fabs NaN \<noteq> Num 0
   \<and> parse_brl_amount (nan_row ! 3) = Some (Num 7) \<and> fabs (Num 7) \<noteq> Num 0
   \<and> parse_transactions_from_tables [compound_header, nan_row] =
       [\<lparr>date = \<lparr>year = 2025, month = 12, day = 15\<rparr>, description_full = ''COMPRA'',
         merchant_normalized = ''COMPRA'', txn_type = ''debit'', amount = Num 7,
         category = None\<rparr>]"
proof -
  have "nan_row ! 2 = ''nan''" and "nan_row ! 3 = ''7,00''"
    by (simp_all add: nan_row_def)
  moreover have "parse_transactions_from_tables [compound_header, nan_row] =
      table_row_transactions 0 1 2 3 compound_header nan_row"
    unfolding parse_behind_compound_header by simp
  ultimately show ?thesis
    unfolding nan_row_transactions by (simp add: amount_nan amount_7)
qed

text \<open>
  Claim C5, amended. A consumed text line or table row whose parsed credit and parsed
  debit both pass the test \<^verbatim>\<open>abs(x) > 0\<close> of the code (a number other than zero or an
  infinity, not NaN) contributes exactly two transactions to what the parser returns,
  between the contributions of the lines or rows before and after it: a debit with the
  magnitude of the debit and a credit with the credit, equal in date,
  \<^verbatim>\<open>description_full\<close> and \<^verbatim>\<open>merchant_normalized\<close>. For the table parser the row
  stands behind the first header row, whose cells map all four roles.
\<close>

theorem both_amounts_give_two_transactions:
  "(text_line_fields line = Some (d, desc, Some c, Some b) \<and> fpos (fabs c) \<and> fpos (fabs b) \<longrightarrow>
      parse_transactions_from_text_lines (before @ line # after) =
        parse_transactions_from_text_lines before
        @ [\<lparr>date = d, description_full = strip (collapse_ws desc),
            merchant_normalized = normalize_merchant (strip (collapse_ws desc)),
            txn_type = ''debit'', amount = fabs b, category = None\<rparr>,
           \<lparr>date = d, description_full = strip (collapse_ws desc),
            merchant_normalized = normalize_merchant (strip (collapse_ws desc)),
            txn_type = ''credit'', amount = c, category = None\<rparr>]
        @ parse_transactions_from_text_lines after)
   \<and> (\<not> list_ex is_header_row pre \<and> is_header_row header \<and>
       build_col_map Map.empty 0 header ''date'' = Some dc \<and>
       build_col_map Map.empty 0 header ''description'' = Some sc \<and>
       build_col_map Map.empty 0 header ''credit'' = Some cc \<and>
       build_col_map Map.empty 0 header ''debit'' = Some bc \<and>
       table_row_fields dc sc cc bc header row = Some (rd, rdesc, Some rc, Some rb) \<and>
       fpos (fabs rc) \<and> fpos (fabs rb) \<longrightarrow>
         parse_transactions_from_tables (pre @ header # rows_before @ row # rows_after) =
           parse_transactions_from_tables (pre @ header # rows_before)
           @ [\<lparr>date = rd, description_full = strip (collapse_ws rdesc),
               merchant_normalized = normalize_merchant (strip (collapse_ws rdesc)),
               txn_type = ''debit'', amount = fabs rb, category = None\<rparr>,
              \<lparr>date = rd, description_full = strip (collapse_ws rdesc),
               merchant_normalized = normalize_merchant (strip (collapse_ws rdesc)),
               txn_type = ''credit'', amount = rc, category = None\<rparr>]
           @ parse_transactions_from_tables (pre @ header # rows_after))"
proof (intro conjI impI)
  assume a: "text_line_fields line = Some (d, desc, Some c, Some b) \<and> fpos (fabs c)
    \<and> fpos (fabs b)"
  then have "text_line_transactions line = emit_transactions d desc (Some c) (Some b)"
    by (simp add: text_line_transactions_def)
  with a show "parse_transactions_from_text_lines (before @ line # after) =
        parse_transactions_from_text_lines before
        @ [\<lparr>date = d, description_full = strip (collapse_ws desc),
            merchant_normalized = normalize_merchant (strip (collapse_ws desc)),
            txn_type = ''debit'', amount = fabs b, category = None\<rparr>,
           \<lparr>date = d, description_full = strip (collapse_ws desc),
            merchant_normalized = normalize_merchant (strip (collapse_ws desc)),
            txn_type = ''credit'', amount = c, category = None\<rparr>]
        @ parse_transactions_from_text_lines after"
    by (simp add: parse_text_lines_concat emit_both)
next
  assume a: "\<not> list_ex is_header_row pre \<and> is_header_row header \<and>
       build_col_map Map.empty 0 header ''date'' = Some dc \<and>
       build_col_map Map.empty 0 header ''description'' = Some sc \<and>
       build_col_map Map.empty 0 header ''credit'' = Some cc \<and>
       build_col_map Map.empty 0 header ''debit'' = Some bc \<and>
       table_row_fields dc sc cc bc header row = Some (rd, rdesc, Some rc, Some rb) \<and>
       fpos (fabs rc) \<and> fpos (fabs rb)"
  then have parse: "parse_transactions_from_tables (pre @ header # rows) =
      concat (map (table_row_transactions dc sc cc bc header) rows)" for rows
    by (intro parse_tables_behind_header) simp_all
  from a have "table_row_transactions dc sc cc bc header row =
      emit_transactions rd rdesc (Some rc) (Some rb)"
    by (simp add: table_row_transactions_def)
  with a show "parse_transactions_from_tables (pre @ header # rows_before @ row # rows_after) =
           parse_transactions_from_tables (pre @ header # rows_before)
           @ [\<lparr>date = rd, description_full = strip (collapse_ws rdesc),
               merchant_normalized = normalize_merchant (strip (collapse_ws rdesc)),
               txn_type = ''debit'', amount = fabs rb, category = None\<rparr>,
              \<lparr>date = rd, description_full = strip (collapse_ws rdesc),
               merchant_normalized = normalize_merchant (strip (collapse_ws rdesc)),
               txn_type = ''credit'', amount = rc, category = None\<rparr>]
           @ parse_transactions_from_tables (pre @ header # rows_after)"
    by (simp add: parse emit_both)
qed

lemma smoke_lines_alone:
  "parse_transactions_from_text_lines [smoke_line_1] = text_line_transactions smoke_line_1"
  "parse_transactions_from_text_lines [smoke_line_2] = text_line_transactions smoke_line_2"
  by (simp_all add: parse_text_lines_concat)

lemma compound_tables_alone:
  "parse_transactions_from_tables [compound_header] = []"
  "parse_transactions_from_tables [compound_header, compound_row] =
     table_row_transactions 0 1 2 3 compound_header compound_row"
  unfolding parse_behind_compound_header by simp_all

theorem both_amounts_witness:
  "text_line_fields compound_line =
     Some (\<lparr>year = 2025, month = 12, day = 15\<rparr>, ''COMPRA'', Some (Num 5), Some (Num 7))
   \<and> fpos (fabs (Num 5)) \<and> fpos (fabs (Num 7))
   \<and> parse_transactions_from_text_lines [smoke_line_1, compound_line, smoke_line_2] =
       [\<lparr>date = \<lparr>year = 2025, month = 12, day = 15\<rparr>,
         description_full = ''CREDITO DE SALARIO ACME LTDA 000000 000000'',
         merchant_normalized = ''ACME LTDA 000000 000000'',
         txn_type = ''credit'', amount = Num 1350, category = None\<rparr>,
        \<lparr>date = \<lparr>year = 2025, month = 12, day = 15\<rparr>, description_full = ''COMPRA'',
         merchant_normalized = ''COMPRA'', txn_type = ''debit'', amount = Num 7,
         category = None\<rparr>,
        \<lparr>date = \<lparr>year = 2025, month = 12, day = 15\<rparr>, description_full = ''COMPRA'',
         merchant_normalized = ''COMPRA'', txn_type = ''credit'', amount = Num 5,
         category = None\<rparr>,
        \<lparr>date = \<lparr>year = 2025, month = 12, day = 17\<rparr>,
         description_full = ''PIX ENVIADO STRIPE BRASIL SOLUCOES DE 000000 000000'',
         merchant_normalized = ''STRIPE BRASIL SOLUCOES DE 000000 000000'',
         txn_type = ''debit'', amount = Num (1199 / 10), category = None\<rparr>]
   \<and> \<not> list_ex is_header_row [] \<and> is_header_row compound_header
   \<and> build_col_map Map.empty 0 compound_header ''date'' = Some 0
   \<and> build_col_map Map.empty 0 compound_header ''description'' = Some 1
   \<and> build_col_map Map.empty 0 compound_header ''credit'' = Some 2
   \<and> build_col_map Map.empty 0 compound_header ''debit'' = Some 3
   \<and> table_row_fields 0 1 2 3 compound_header compound_row =
       Some (\<lparr>year = 2025, month = 12, day = 15\<rparr>, ''COMPRA'', Some (Num 5), Some (Num 7))
   \<and> parse_transactions_from_tables [compound_header, compound_row, compound_row] =
       [\<lparr>date = \<lparr>year = 2025, month = 12, day = 15\<rparr>, description_full = ''COMPRA'',
         merchant_normalized = ''COMPRA'', txn_type = ''debit'', amount = Num 7,
         category = None\<rparr>,
        \<lparr>date = \<lparr>year = 2025, month = 12, day = 15\<rparr>, description_full = ''COMPRA'',
         merchant_normalized = ''COMPRA'', txn_type = ''credit'', amount = Num 5,
         category = None\<rparr>,
        \<lparr>date = \<lparr>year = 2025, month = 12, day = 15\<rparr>, description_full = ''COMPRA'',
         merchant_normalized = ''COMPRA'', txn_type = ''debit'', amount = Num 7,
         category = None\<rparr>,
        \<lparr>date = \<lparr>year = 2025, month = 12, day = 15\<rparr>, description_full = ''COMPRA'',
         merchant_normalized = ''COMPRA'', txn_type = ''credit'', amount = Num 5,
         category = None\<rparr>]"
proof -
  have pos: "fpos (fabs (Num 5))" "fpos (fabs (Num 7))" "fpos (Num 7)"
    by simp_all
  have seven: "fabs (Num 7) = Num 7"
    by simp
  note both = both_amounts_give_two_transactions [of compound_line
      "\<lparr>year = 2025, month = 12, day = 15\<rparr>" "''COMPRA''" "Num 5" "Num 7"
      "[smoke_line_1]" "[smoke_line_2]"
      "[]" compound_header 0 1 2 3 compound_row
      "\<lparr>year = 2025, month = 12, day = 15\<rparr>" "''COMPRA''" "Num 5" "Num 7"
      "[compound_row]" "[]",
      unfolded compra_description compra_merchant seven smoke_lines_alone
        smoke_line_1_transactions smoke_line_2_transactions]
  from both compound_line_fields pos
  have lines: "parse_transactions_from_text_lines ([smoke_line_1] @ compound_line # [smoke_line_2]) =
       [\<lparr>date = \<lparr>year = 2025, month = 12, day = 15\<rparr>,
         description_full = ''CREDITO DE SALARIO ACME LTDA 000000 000000'',
         merchant_normalized = ''ACME LTDA 000000 000000'',
         txn_type = ''credit'', amount = Num 1350, category = None\<rparr>]
       @ [\<lparr>date = \<lparr>year = 2025, month = 12, day = 15\<rparr>, description_full = ''COMPRA'',
         merchant_normalized = ''COMPRA'', txn_type = ''debit'', amount = Num 7,
         category = None\<rparr>,
        \<lparr>date = \<lparr>year = 2025, month = 12, day = 15\<rparr>, description_full = ''COMPRA'',
         merchant_normalized = ''COMPRA'', txn_type = ''credit'', amount = Num 5,
         category = None\<rparr>]
       @ [\<lparr>date = \<lparr>year = 2025, month = 12, day = 17\<rparr>,
         description_full = ''PIX ENVIADO STRIPE BRASIL SOLUCOES DE 000000 000000'',
         merchant_normalized = ''STRIPE BRASIL SOLUCOES DE 000000 000000'',
         txn_type = ''debit'', amount = Num (1199 / 10), category = None\<rparr>]"
    by blast
  from both no_header_before compound_header_columns compound_row_fields pos
  have rows: "parse_transactions_from_tables
        ([] @ compound_header # [compound_row] @ compound_row # []) =
       parse_transactions_from_tables ([] @ compound_header # [compound_row])
       @ [\<lparr>date = \<lparr>year = 2025, month = 12, day = 15\<rparr>, description_full = ''COMPRA'',
         merchant_normalized = ''COMPRA'', txn_type = ''debit'', amount = Num 7,
         category = None\<rparr>,
        \<lparr>date = \<lparr>year = 2025, month = 12, day = 15\<rparr>, description_full = ''COMPRA'',
         merchant_normalized = ''COMPRA'', txn_type = ''credit'', amount = Num 5,
         category = None\<rparr>]
       @ parse_transactions_from_tables ([] @ compound_header # [])"
    by blast
  have l: "[smoke_line_1] @ compound_line # [smoke_line_2] =
             [smoke_line_1, compound_line, smoke_line_2]"
    and r: "[] @ compound_header # [compound_row] @ compound_row # [] =
             [compound_header, compound_row, compound_row]"
      "[] @ compound_header # [compound_row] = [compound_header, compound_row]"
      "[] @ compound_header # [] = [compound_header]"
    by simp_all
  from lines have lines': "parse_transactions_from_text_lines
        [smoke_line_1, compound_line, smoke_line_2] =
       [\<lparr>date = \<lparr>year = 2025, month = 12, day = 15\<rparr>,
         description_full = ''CREDITO DE SALARIO ACME LTDA 000000 000000'',
         merchant_normalized = ''ACME LTDA 000000 000000'',
         txn_type = ''credit'', amount = Num 1350, category = None\<rparr>,
        \<lparr>date = \<lparr>year = 2025, month = 12, day = 15\<rparr>, description_full = ''COMPRA'',
         merchant_normalized = ''COMPRA'', txn_type = ''debit'', amount = Num 7,
         category = None\<rparr>,
        \<lparr>date = \<lparr>year = 2025, month = 12, day = 15\<rparr>, description_full = ''COMPRA'',
         merchant_normalized = ''COMPRA'', txn_type = ''credit'', amount = Num 5,
         category = None\<rparr>,
        \<lparr>date = \<lparr>year = 2025, month = 12, day = 17\<rparr>,
         description_full = ''PIX ENVIADO STRIPE BRASIL SOLUCOES DE 000000 000000'',
         merchant_normalized = ''STRIPE BRASIL SOLUCOES DE 000000 000000'',
         txn_type = ''debit'', amount = Num (1199 / 10), category = None\<rparr>]"
    unfolding l by simp
  from rows have rows': "parse_transactions_from_tables
        [compound_header, compound_row, compound_row] =
       [\<lparr>date = \<lparr>year = 2025, month = 12, day = 15\<rparr>, description_full = ''COMPRA'',
         merchant_normalized = ''COMPRA'', txn_type = ''debit'', amount = Num 7,
         category = None\<rparr>,
        \<lparr>date = \<lparr>year = 2025, month = 12, day = 15\<rparr>, description_full = ''COMPRA'',
         merchant_normalized = ''COMPRA'', txn_type = ''credit'', amount = Num 5,
         category = None\<rparr>,
        \<lparr>date = \<lparr>year = 2025, month = 12, day = 15\<rparr>, description_full = ''COMPRA'',
         merchant_normalized = ''COMPRA'', txn_type = ''debit'', amount = Num 7,
         category = None\<rparr>,
        \<lparr>date = \<lparr>year = 2025, month = 12, day = 15\<rparr>, description_full = ''COMPRA'',
         merchant_normalized = ''COMPRA'', txn_type = ''credit'', amount = Num 5,
         category = None\<rparr>]"
    unfolding r compound_tables_alone compound_row_transactions by simp
  from compound_line_fields pos lines' no_header_before compound_header_columns
    compound_row_fields rows'
  show ?thesis
    by blast
qed

subsection \<open>Order of the two transactions of one row\<close>

lemma emit_debit_then_credit:
  assumes "td \<in> set (emit_transactions d desc credit debit)" and "txn_type td = ''debit''"
    and "tc \<in> set (emit_transactions d desc credit debit)" and "txn_type tc = ''credit''"
  shows "emit_transactions d desc credit debit = [td, tc]"
  using assms
  by (auto simp: emit_transactions_def Let_def split: option.splits if_splits)

lemma text_line_debit_then_credit:
  assumes "td \<in> set (text_line_transactions line)" and "txn_type td = ''debit''"
    and "tc \<in> set (text_line_transactions line)" and "txn_type tc = ''credit''"
  shows "text_line_transactions line = [td, tc]"
proof (cases "text_line_fields line")
  case None
  with assms(1) show ?thesis
    by (simp add: text_line_transactions_def)
next
  case (Some f)
  obtain d desc credit debit where f: "f = (d, desc, credit, debit)"
    by (cases f)
  from Some f have eq: "text_line_transactions line = emit_transactions d desc credit debit"
    by (simp add: text_line_transactions_def)
  from assms show ?thesis
    unfolding eq by (rule emit_debit_then_credit)
qed

lemma table_row_debit_then_credit:
  assumes "td \<in> set (table_row_transactions dc sc cc bc header row)"
    and "txn_type td = ''debit''"
    and "tc \<in> set (table_row_transactions dc sc cc bc header row)"
    and "txn_type tc = ''credit''"
  shows "table_row_transactions dc sc cc bc header row = [td, tc]"
proof (cases "table_row_fields dc sc cc bc header row")
  case None
  with assms(1) show ?thesis
    by (simp add: table_row_transactions_def)
next
  case (Some f)
  obtain d desc credit debit where f: "f = (d, desc, credit, debit)"
    by (cases f)
  from Some f have eq:
    "table_row_transactions dc sc cc bc header row = emit_transactions d desc credit debit"
    by (simp add: table_row_transactions_def)
  from assms show ?thesis
    unfolding eq by (rule emit_debit_then_credit)
qed

text \<open>
  Claim C10. When one text line or one table row yields a debit and a credit, the two
  are all it yields, and in the sequence the parser returns the debit stands
  immediately before the credit, between what the earlier and what the later lines or
  rows contribute. For the table parser the row stands behind the first header row,
  whose cells map all four roles: without such a header no row is consumed.
\<close>

theorem debit_precedes_credit:
  "(td \<in> set (text_line_transactions line) \<and> txn_type td = ''debit'' \<and>
    tc \<in> set (text_line_transactions line) \<and> txn_type tc = ''credit'' \<longrightarrow>
      parse_transactions_from_text_lines (before @ line # after) =
        parse_transactions_from_text_lines before @ [td, tc]
          @ parse_transactions_from_text_lines after)
   \<and> (\<not> list_ex is_header_row pre \<and> is_header_row header \<and>
       build_col_map Map.empty 0 header ''date'' = Some dc \<and>
       build_col_map Map.empty 0 header ''description'' = Some sc \<and>
       build_col_map Map.empty 0 header ''credit'' = Some cc \<and>
       build_col_map Map.empty 0 header ''debit'' = Some bc \<and>
       rd \<in> set (table_row_transactions dc sc cc bc header row) \<and> txn_type rd = ''debit'' \<and>
       rc \<in> set (table_row_transactions dc sc cc bc header row) \<and> txn_type rc = ''credit'' \<longrightarrow>
         parse_transactions_from_tables (pre @ header # rows_before @ row # rows_after) =
           parse_transactions_from_tables (pre @ header # rows_before) @ [rd, rc]
             @ parse_transactions_from_tables (pre @ header # rows_after))"
proof (intro conjI impI)
  assume "td \<in> set (text_line_transactions line) \<and> txn_type td = ''debit'' \<and>
    tc \<in> set (text_line_transactions line) \<and> txn_type tc = ''credit''"
  then have "text_line_transactions line = [td, tc]"
    by (simp add: text_line_debit_then_credit)
  then show "parse_transactions_from_text_lines (before @ line # after) =
        parse_transactions_from_text_lines before @ [td, tc]
          @ parse_transactions_from_text_lines after"
    by (simp add: parse_text_lines_concat)
next
  assume a: "\<not> list_ex is_header_row pre \<and> is_header_row header \<and>
       build_col_map Map.empty 0 header ''date'' = Some dc \<and>
       build_col_map Map.empty 0 header ''description'' = Some sc \<and>
       build_col_map Map.empty 0 header ''credit'' = Some cc \<and>
       build_col_map Map.empty 0 header ''debit'' = Some bc \<and>
       rd \<in> set (table_row_transactions dc sc cc bc header row) \<and> txn_type rd = ''debit'' \<and>
       rc \<in> set (table_row_transactions dc sc cc bc header row) \<and> txn_type rc = ''credit''"
  then have parse: "parse_transactions_from_tables (pre @ header # rows) =
      concat (map (table_row_transactions dc sc cc bc header) rows)" for rows
    by (intro parse_tables_behind_header) simp_all
  from a have "table_row_transactions dc sc cc bc header row = [rd, rc]"
    by (simp add: table_row_debit_then_credit)
  then show "parse_transactions_from_tables (pre @ header # rows_before @ row # rows_after) =
           parse_transactions_from_tables (pre @ header # rows_before) @ [rd, rc]
             @ parse_transactions_from_tables (pre @ header # rows_after)"
    by (simp add: parse)
qed

theorem debit_precedes_credit_witness:
  "\<lparr>date = \<lparr>year = 2025, month = 12, day = 15\<rparr>, description_full = ''COMPRA'',
      merchant_normalized = ''COMPRA'', txn_type = ''debit'', amount = Num 7,
      category = None\<rparr> \<in> set (text_line_transactions compound_line)
   \<and> \<lparr>date = \<lparr>year = 2025, month = 12, day = 15\<rparr>, description_full = ''COMPRA'',
      merchant_normalized = ''COMPRA'', txn_type = ''credit'', amount = Num 5,
      category = None\<rparr> \<in> set (text_line_transactions compound_line)
   \<and> parse_transactions_from_text_lines ([smoke_line_1] @ compound_line # [smoke_line_2]) =
     parse_transactions_from_text_lines [smoke_line_1]
     @ [\<lparr>date = \<lparr>year = 2025, month = 12, day = 15\<rparr>, description_full = ''COMPRA'',
         merchant_normalized = ''COMPRA'', txn_type = ''debit'', amount = Num 7,
         category = None\<rparr>,
        \<lparr>date = \<lparr>year = 2025, month = 12, day = 15\<rparr>, description_full = ''COMPRA'',
         merchant_normalized = ''COMPRA'', txn_type = ''credit'', amount = Num 5,
         category = None\<rparr>]
     @ parse_transactions_from_text_lines [smoke_line_2]
   \<and> \<not> list_ex is_header_row [] \<and> is_header_row compound_header
   \<and> build_col_map Map.empty 0 compound_header ''date'' = Some 0
   \<and> build_col_map Map.empty 0 compound_header ''description'' = Some 1
   \<and> build_col_map Map.empty 0 compound_header ''credit'' = Some 2
   \<and> build_col_map Map.empty 0 compound_header ''debit'' = Some 3
   \<and> \<lparr>date = \<lparr>year = 2025, month = 12, day = 15\<rparr>, description_full = ''COMPRA'',
      merchant_normalized = ''COMPRA'', txn_type = ''debit'', amount = Num 7,
      category = None\<rparr> \<in> set (table_row_transactions 0 1 2 3 compound_header compound_row)
   \<and> \<lparr>date = \<lparr>year = 2025, month = 12, day = 15\<rparr>, description_full = ''COMPRA'',
      merchant_normalized = ''COMPRA'', txn_type = ''credit'', amount = Num 5,
      category = None\<rparr> \<in> set (table_row_transactions 0 1 2 3 compound_header compound_row)
   \<and> parse_transactions_from_tables
       ([] @ compound_header # [] @ compound_row # [compound_row]) =
     parse_transactions_from_tables ([] @ compound_header # [])
     @ [\<lparr>date = \<lparr>year = 2025, month = 12, day = 15\<rparr>, description_full = ''COMPRA'',
         merchant_normalized = ''COMPRA'', txn_type = ''debit'', amount = Num 7,
         category = None\<rparr>,
        \<lparr>date = \<lparr>year = 2025, month = 12, day = 15\<rparr>, description_full = ''COMPRA'',
         merchant_normalized = ''COMPRA'', txn_type = ''credit'', amount = Num 5,
         category = None\<rparr>]
     @ parse_transactions_from_tables ([] @ compound_header # [compound_row])"
proof -
  define deb where "deb = \<lparr>date = \<lparr>year = 2025, month = 12, day = 15\<rparr>,
      description_full = ''COMPRA'', merchant_normalized = ''COMPRA'',
      txn_type = ''debit'', amount = Num 7, category = None\<rparr>"
  define cre where "cre = \<lparr>date = \<lparr>year = 2025, month = 12, day = 15\<rparr>,
      description_full = ''COMPRA'', merchant_normalized = ''COMPRA'',
      txn_type = ''credit'', amount = Num 5, category = None\<rparr>"
  have types: "txn_type deb = ''debit''" "txn_type cre = ''credit''"
    by (simp_all add: deb_def cre_def)
  have line: "deb \<in> set (text_line_transactions compound_line)"
      "cre \<in> set (text_line_transactions compound_line)"
    unfolding compound_line_transactions by (simp_all add: deb_def cre_def)
  have row: "deb \<in> set (table_row_transactions 0 1 2 3 compound_header compound_row)"
      "cre \<in> set (table_row_transactions 0 1 2 3 compound_header compound_row)"
    unfolding compound_row_transactions by (simp_all add: deb_def cre_def)
  note order = debit_precedes_credit [where td = deb and tc = cre and line = compound_line
      and before = "[smoke_line_1]" and after = "[smoke_line_2]"
      and pre = "[]" and header = compound_header and dc = 0 and sc = 1 and cc = 2 and bc = 3
      and rd = deb and rc = cre and row = compound_row
      and rows_before = "[]" and rows_after = "[compound_row]"]
  from order types line
  have lines: "parse_transactions_from_text_lines
        ([smoke_line_1] @ compound_line # [smoke_line_2]) =
      parse_transactions_from_text_lines [smoke_line_1] @ [deb, cre]
        @ parse_transactions_from_text_lines [smoke_line_2]"
    by blast
  from order types row no_header_before compound_header_columns
  have rows: "parse_transactions_from_tables
        ([] @ compound_header # [] @ compound_row # [compound_row]) =
      parse_transactions_from_tables ([] @ compound_header # []) @ [deb, cre]
        @ parse_transactions_from_tables ([] @ compound_header # [compound_row])"
    by blast
  from line lines no_header_before compound_header_columns row rows
  show ?thesis
    unfolding deb_def cre_def by blast
qed

subsection \<open>The three attempts of the orchestrator\<close>

lemma one_page_tables:
  "extract_tables_from_pdf (one_page_library (Inr (Some ts)) x c) b =
     Inr (map clean_row (filter keep_row (concat ts)))"
  "extract_tables_from_pdf (one_page_library (Inr None) x c) b = Inr []"
  "extract_tables_from_pdf (one_page_library (Inl e) x c) b = Inl e"
  by (simp_all add: extract_tables_from_pdf_def one_page_library_def)

lemma one_page_text:
  "extract_text_lines_from_pdf (one_page_library t (Inr (Some txt)) c) b = Inr (splitlines txt)"
  "extract_text_lines_from_pdf (one_page_library t (Inr None) c) b = Inr (splitlines [])"
  "extract_text_lines_from_pdf (one_page_library t (Inl e) c) b = Inl e"
  by (simp_all add: extract_text_lines_from_pdf_def one_page_library_def)

lemma one_page_ocr:
  "extract_text_with_ocr (one_page_library t x None) b = Inr []"
  "extract_text_with_ocr (one_page_library t x (Some (Inl e))) b = Inl e"
  by (simp_all add: extract_text_with_ocr_def one_page_library_def)

lemma compound_page_rows:
  "map clean_row (filter keep_row (concat compound_page_tables)) =
     [compound_header, compound_row]"
  by (simp add: compound_page_tables_def keep_row_def clean_row_def compound_header_def
        compound_row_def)

lemma compound_table_header:
  "find_header 0 [compound_header, compound_row] = Some 0"
  "build_col_map Map.empty 0 compound_header ''date'' = Some 0"
  "build_col_map Map.empty 0 compound_header ''description'' = Some 1"
  "build_col_map Map.empty 0 compound_header ''credit'' = Some 2"
  "build_col_map Map.empty 0 compound_header ''debit'' = Some 3"
  unfolding compound_header_def compound_row_def by code_simp+

lemma parse_tables_eval:
  assumes "tables \<noteq> []" and "find_header 0 tables = Some h"
    and "build_col_map Map.empty 0 (tables ! h) ''date'' = Some dc"
    and "build_col_map Map.empty 0 (tables ! h) ''description'' = Some sc"
    and "build_col_map Map.empty 0 (tables ! h) ''credit'' = Some cc"
    and "build_col_map Map.empty 0 (tables ! h) ''debit'' = Some bc"
  shows "parse_transactions_from_tables tables =
           table_rows dc sc cc bc (tables ! h) (drop (h + 1) tables) []"
  using assms by (simp add: parse_transactions_from_tables_def Let_def)

lemma compound_table_transactions:
  "parse_transactions_from_tables [compound_header, compound_row] =
     [\<lparr>date = \<lparr>year = 2025, month = 12, day = 15\<rparr>, description_full = ''COMPRA'',
       merchant_normalized = ''COMPRA'', txn_type = ''debit'', amount = Num 7,
       category = None\<rparr>,
      \<lparr>date = \<lparr>year = 2025, month = 12, day = 15\<rparr>, description_full = ''COMPRA'',
       merchant_normalized = ''COMPRA'', txn_type = ''credit'', amount = Num 5,
       category = None\<rparr>]"
proof -
  have hd: "[compound_header, compound_row] ! 0 = compound_header"
    by simp
  have "parse_transactions_from_tables [compound_header, compound_row] =
          table_rows 0 1 2 3 ([compound_header, compound_row] ! 0)
            (drop (0 + 1) [compound_header, compound_row]) []"
  proof (rule parse_tables_eval)
    show "find_header 0 [compound_header, compound_row] = Some 0"
      by (rule compound_table_header)
  qed (simp_all only: hd compound_table_header, simp)
  also have "\<dots> = table_row_transactions 0 1 2 3 compound_header compound_row"
    by simp
  finally show ?thesis
    unfolding compound_row_transactions .
qed

lemma smoke_page_lines: "splitlines smoke_page_text = [smoke_line_1, smoke_line_2]"
  unfolding smoke_page_text_def smoke_line_1_def smoke_line_2_def by code_simp

text \<open>
  Claim C6. When the table attempt yields a list of transactions that is not empty,
  \<^verbatim>\<open>parse_transactions_from_pdf\<close> returns exactly that list. Nothing is assumed of the
  text and OCR extractors, which may return lines or raise: they are not called, and
  two libraries that agree on the tables give the same result.
\<close>

theorem table_attempt_short_circuits:
  "(extract_tables_from_pdf lib file_bytes = Inr tables \<and>
    parse_transactions_from_tables tables \<noteq> [] \<longrightarrow>
      parse_transactions_from_pdf lib file_bytes = Inr (parse_transactions_from_tables tables))
   \<and> (extract_tables_from_pdf lib file_bytes = Inr tables \<and>
       extract_tables_from_pdf lib' file_bytes = Inr tables \<and>
       parse_transactions_from_tables tables \<noteq> [] \<longrightarrow>
         parse_transactions_from_pdf lib' file_bytes = parse_transactions_from_pdf lib file_bytes)"
  by (simp add: parse_transactions_from_pdf_def Let_def)

theorem table_attempt_short_circuits_witness:
  "extract_tables_from_pdf
     (one_page_library (Inr (Some compound_page_tables)) (Inl (LibraryError ''text''))
        (Some (Inl (LibraryError ''ocr'')))) [] = Inr [compound_header, compound_row]
   \<and> extract_tables_from_pdf
       (one_page_library (Inr (Some compound_page_tables)) (Inr (Some smoke_page_text)) None) []
       = Inr [compound_header, compound_row]
   \<and> parse_transactions_from_tables [compound_header, compound_row] \<noteq> []
   \<and> extract_text_lines_from_pdf
       (one_page_library (Inr (Some compound_page_tables)) (Inl (LibraryError ''text''))
          (Some (Inl (LibraryError ''ocr'')))) [] = Inl (LibraryError ''text'')
   \<and> parse_transactions_from_pdf
       (one_page_library (Inr (Some compound_page_tables)) (Inl (LibraryError ''text''))
          (Some (Inl (LibraryError ''ocr'')))) []
       = Inr (parse_transactions_from_tables [compound_header, compound_row])
   \<and> parse_transactions_from_pdf
       (one_page_library (Inr (Some compound_page_tables)) (Inr (Some smoke_page_text)) None) []
       = parse_transactions_from_pdf
           (one_page_library (Inr (Some compound_page_tables)) (Inl (LibraryError ''text''))
              (Some (Inl (LibraryError ''ocr'')))) []"
  using table_attempt_short_circuits [of
      "one_page_library (Inr (Some compound_page_tables)) (Inl (LibraryError ''text''))
         (Some (Inl (LibraryError ''ocr'')))"
      "[]" "[compound_header, compound_row]"
      "one_page_library (Inr (Some compound_page_tables)) (Inr (Some smoke_page_text)) None"]
  by (simp add: one_page_tables one_page_text compound_page_rows compound_table_transactions)

subsection \<open>Exceptions of the extraction libraries\<close>

lemma no_tables_no_transactions: "parse_transactions_from_tables [] = []"
  by (simp add: parse_transactions_from_tables_def)

lemma no_lines_no_transactions: "parse_transactions_from_text_lines [] = []"
  by (simp add: parse_transactions_from_text_lines_def)

lemma splitlines_empty: "splitlines [] = []"
  by (simp add: splitlines_def)

lemma a_pdf_is_pdf: "endswith (lower ''a.pdf'') ''.pdf''"
  by code_simp

text \<open>
  Claim C2, as stated: an exception raised by an extraction library during one attempt
  is caught in \<^verbatim>\<open>parse_transactions_from_pdf\<close>, the attempt counts as empty and the
  next attempt proceeds. It is not: for a document whose page raises in
  \<^verbatim>\<open>extract_tables\<close> while its text holds the two lines of the smoke test, the text
  attempt would find transactions, but the outcome of the function is the exception.
\<close>

theorem table_exception_propagates_counterexample:
  "parse_transactions_from_pdf
     (one_page_library (Inl (LibraryError ''tables'')) (Inr (Some smoke_page_text)) None) []
     = Inl (LibraryError ''tables'')
   \<and> extract_text_lines_from_pdf
       (one_page_library (Inl (LibraryError ''tables'')) (Inr (Some smoke_page_text)) None) []
       = Inr [smoke_line_1, smoke_line_2]
   \<and> parse_transactions_from_text_lines [smoke_line_1, smoke_line_2] \<noteq> []"
  by (simp add: parse_transactions_from_pdf_def one_page_tables one_page_text smoke_page_lines
        parse_text_lines_concat smoke_line_1_transactions)

text \<open>
  Claim C2, amended. \<^verbatim>\<open>parse_transactions_from_pdf\<close> catches nothing: an exception
  raised by an extraction library during the attempt that is running (the table attempt;
  the text attempt when the table attempt gave nothing; the OCR attempt when both gave
  nothing) leaves the function as its outcome, and the later attempts do not run. The
  handler is in the loop of \<^verbatim>\<open>upload\<close>: it reports the document as failed and goes
  on with the remaining files, the transactions collected so far unchanged.
\<close>

theorem extraction_exception_propagates:
  "(extract_tables_from_pdf lib1 b1 = Inl e1 \<longrightarrow> parse_transactions_from_pdf lib1 b1 = Inl e1)
   \<and> (extract_tables_from_pdf lib2 b2 = Inr tables2 \<and>
       parse_transactions_from_tables tables2 = [] \<and>
       extract_text_lines_from_pdf lib2 b2 = Inl e2 \<longrightarrow>
         parse_transactions_from_pdf lib2 b2 = Inl e2)
   \<and> (extract_tables_from_pdf lib3 b3 = Inr tables3 \<and>
       parse_transactions_from_tables tables3 = [] \<and>
       extract_text_lines_from_pdf lib3 b3 = Inr lines3 \<and>
       parse_transactions_from_text_lines lines3 = [] \<and>
       extract_text_with_ocr lib3 b3 = Inl e3 \<longrightarrow>
         parse_transactions_from_pdf lib3 b3 = Inl e3)
   \<and> (endswith (lower filename) ''.pdf'' \<and> parse_transactions_from_pdf lib b = Inl e \<longrightarrow>
         upload_loop lib ((filename, b) # files) (all_transactions, flashes) =
           upload_loop lib files (all_transactions, flashes @ [ProcessingError filename]))"
  by (simp add: parse_transactions_from_pdf_def Let_def)

theorem extraction_exception_propagates_witness:
  "extract_tables_from_pdf
     (one_page_library (Inl (LibraryError ''tables'')) (Inr (Some smoke_page_text)) None) []
     = Inl (LibraryError ''tables'')
   \<and> parse_transactions_from_pdf
       (one_page_library (Inl (LibraryError ''tables'')) (Inr (Some smoke_page_text)) None) []
       = Inl (LibraryError ''tables'')
   \<and> extract_tables_from_pdf
       (one_page_library (Inr None) (Inl (LibraryError ''text'')) None) [] = Inr []
   \<and> parse_transactions_from_tables [] = []
   \<and> extract_text_lines_from_pdf
       (one_page_library (Inr None) (Inl (LibraryError ''text'')) None) []
       = Inl (LibraryError ''text'')
   \<and> parse_transactions_from_pdf
       (one_page_library (Inr None) (Inl (LibraryError ''text'')) None) []
       = Inl (LibraryError ''text'')
   \<and> extract_tables_from_pdf
       (one_page_library (Inr None) (Inr None) (Some (Inl (LibraryError ''ocr'')))) [] = Inr []
   \<and> extract_text_lines_from_pdf
       (one_page_library (Inr None) (Inr None) (Some (Inl (LibraryError ''ocr'')))) [] = Inr []
   \<and> parse_transactions_from_text_lines [] = []
   \<and> extract_text_with_ocr
       (one_page_library (Inr None) (Inr None) (Some (Inl (LibraryError ''ocr'')))) []
       = Inl (LibraryError ''ocr'')
   \<and> parse_transactions_from_pdf
       (one_page_library (Inr None) (Inr None) (Some (Inl (LibraryError ''ocr'')))) []
       = Inl (LibraryError ''ocr'')
   \<and> endswith (lower ''a.pdf'') ''.pdf''
   \<and> upload_loop
       (one_page_library (Inl (LibraryError ''tables'')) (Inr (Some smoke_page_text)) None)
       [(''a.pdf'', [])] ([], []) = ([], [ProcessingError ''a.pdf''])"
  using extraction_exception_propagates [of
      "one_page_library (Inl (LibraryError ''tables'')) (Inr (Some smoke_page_text)) None" "[]"
      "LibraryError ''tables''"
      "one_page_library (Inr None) (Inl (LibraryError ''text'')) None" "[]" "[]"
      "LibraryError ''text''"
      "one_page_library (Inr None) (Inr None) (Some (Inl (LibraryError ''ocr'')))" "[]" "[]" "[]"
      "LibraryError ''ocr''"
      "''a.pdf''"
      "one_page_library (Inl (LibraryError ''tables'')) (Inr (Some smoke_page_text)) None" "[]"
      "LibraryError ''tables''" "[]" "[]" "[]"]
    a_pdf_is_pdf
  by (simp add: one_page_tables one_page_text one_page_ocr no_tables_no_transactions
        no_lines_no_transactions splitlines_empty)

subsection \<open>Column mapping\<close>

lemma build_col_map_general:
  "(build_col_map m i cols k = Some j) =
     ((\<exists>n < length cols. j = i + n \<and> cell_role (cols ! n) = Some k \<and>
          (\<forall>n' < length cols. n < n' \<longrightarrow> cell_role (cols ! n') \<noteq> Some k))
      \<or> (m k = Some j \<and> (\<forall>n < length cols. cell_role (cols ! n) \<noteq> Some k)))"
proof (induction cols arbitrary: m i)
  case Nil
  then show ?case by simp
next
  case (Cons col cols)
  let ?m = "case cell_role col of Some k' \<Rightarrow> m(k' \<mapsto> i) | None \<Rightarrow> m"
  have step: "build_col_map m i (col # cols) k = build_col_map ?m (Suc i) cols k"
    by simp
  have here: "(?m k = Some j) =
      ((cell_role col = Some k \<and> j = i) \<or> (cell_role col \<noteq> Some k \<and> m k = Some j))"
    by (auto split: option.splits)
  show ?case
    unfolding step Cons.IH here
    by (simp add: Ex_less_Suc2 All_less_Suc2) blast
qed

text \<open>An assigned index lies inside the header, hence inside every row that is not
  shorter than the header: the cell reads of the row loop are in range.\<close>

lemma col_index_in_range:
  "build_col_map Map.empty 0 header k = Some j \<Longrightarrow> j < length header"
  unfolding build_col_map_general by auto

text \<open>
  Claim C9, as stated: when several header cells match the same role, the index of the
  first of them is assigned. In the header \<^verbatim>\<open>DATA, DESCRICAO, CREDITO, DEBITO, DATA VALOR\<close>
  the first cell that matches the date role has index 0, but the loop stores index 4:
  every later match overwrites the entry of the dictionary.
\<close>

theorem first_match_counterexample:
  "cell_role (repeated_header ! 0) = Some ''date''
   \<and> build_col_map Map.empty 0 repeated_header ''date'' = Some 4"
  unfolding repeated_header_def by code_simp

text \<open>
  Claim C9, amended. The index assigned to a role is that of the last header cell that
  matches the role (a later match overwrites an earlier one), and a role no cell matches
  stays unassigned. Each header cell is assigned to at most one role, the first in the
  order date, description, credit, debit whose substring the accent-stripped upper-case
  cell contains.
\<close>

theorem last_matching_header_cell_wins:
  "((build_col_map Map.empty 0 header k = Some j) =
      (j < length header \<and> cell_role (header ! j) = Some k \<and>
       (\<forall>i < length header. j < i \<longrightarrow> cell_role (header ! i) \<noteq> Some k)))
   \<and> (cell_role col = Some ''date'') = contains (strip_accents (upper col)) ''DATA''
   \<and> (cell_role col = Some ''description'') =
       (\<not> contains (strip_accents (upper col)) ''DATA''
        \<and> contains (strip_accents (upper col)) ''DESCRI'')
   \<and> (cell_role col = Some ''credit'') =
       (\<not> contains (strip_accents (upper col)) ''DATA''
        \<and> \<not> contains (strip_accents (upper col)) ''DESCRI''
        \<and> contains (strip_accents (upper col)) ''CREDITO'')
   \<and> (cell_role col = Some ''debit'') =
       (\<not> contains (strip_accents (upper col)) ''DATA''
        \<and> \<not> contains (strip_accents (upper col)) ''DESCRI''
        \<and> \<not> contains (strip_accents (upper col)) ''CREDITO''
        \<and> contains (strip_accents (upper col)) ''DEBITO'')
   \<and> (cell_role col = None) =
       (\<not> contains (strip_accents (upper col)) ''DATA''
        \<and> \<not> contains (strip_accents (upper col)) ''DESCRI''
        \<and> \<not> contains (strip_accents (upper col)) ''CREDITO''
        \<and> \<not> contains (strip_accents (upper col)) ''DEBITO'')"
proof -
  have "(build_col_map Map.empty 0 header k = Some j) =
      (j < length header \<and> cell_role (header ! j) = Some k \<and>
       (\<forall>i < length header. j < i \<longrightarrow> cell_role (header ! i) \<noteq> Some k))"
    unfolding build_col_map_general by auto
  moreover have "(cell_role col = Some ''date'') = contains (strip_accents (upper col)) ''DATA''"
    by (simp add: cell_role_def Let_def)
  moreover have "(cell_role col = Some ''description'') =
       (\<not> contains (strip_accents (upper col)) ''DATA''
        \<and> contains (strip_accents (upper col)) ''DESCRI'')"
    by (simp add: cell_role_def Let_def)
  moreover have "(cell_role col = Some ''credit'') =
       (\<not> contains (strip_accents (upper col)) ''DATA''
        \<and> \<not> contains (strip_accents (upper col)) ''DESCRI''
        \<and> contains (strip_accents (upper col)) ''CREDITO'')"
    by (simp add: cell_role_def Let_def)
  moreover have "(cell_role col = Some ''debit'') =
       (\<not> contains (strip_accents (upper col)) ''DATA''
        \<and> \<not> contains (strip_accents (upper col)) ''DESCRI''
        \<and> \<not> contains (strip_accents (upper col)) ''CREDITO''
        \<and> contains (strip_accents (upper col)) ''DEBITO'')"
    by (simp add: cell_role_def Let_def)
  moreover have "(cell_role col = None) =
       (\<not> contains (strip_accents (upper col)) ''DATA''
        \<and> \<not> contains (strip_accents (upper col)) ''DESCRI''
        \<and> \<not> contains (strip_accents (upper col)) ''CREDITO''
        \<and> \<not> contains (strip_accents (upper col)) ''DEBITO'')"
    by (simp add: cell_role_def Let_def)
  ultimately show ?thesis
    by blast
qed

theorem last_matching_header_cell_wins_witness:
  "length repeated_header = 5
   \<and> cell_role (repeated_header ! 1) = Some ''description''
   \<and> cell_role (repeated_header ! 2) \<noteq> Some ''description''
   \<and> cell_role (repeated_header ! 3) \<noteq> Some ''description''
   \<and> cell_role (repeated_header ! 4) \<noteq> Some ''description''
   \<and> build_col_map Map.empty 0 repeated_header ''description'' = Some 1"
proof -
  have len: "length repeated_header = 5"
    by (simp add: repeated_header_def)
  have cell: "cell_role (repeated_header ! 1) = Some ''description''"
    unfolding repeated_header_def by code_simp
  have later: "cell_role (repeated_header ! 2) \<noteq> Some ''description''"
    "cell_role (repeated_header ! 3) \<noteq> Some ''description''"
    "cell_role (repeated_header ! 4) \<noteq> Some ''description''"
    unfolding repeated_header_def by code_simp+
  have rest: "\<forall>i < length repeated_header. 1 < i \<longrightarrow>
         cell_role (repeated_header ! i) \<noteq> Some ''description''"
  proof (intro allI impI)
    fix i assume "i < length repeated_header" and "1 < i"
    then have "i = 2 \<or> i = 3 \<or> i = 4"
      unfolding len by arith
    with later show "cell_role (repeated_header ! i) \<noteq> Some ''description''"
      by blast
  qed
  from len cell rest
    last_matching_header_cell_wins [THEN conjunct1, of repeated_header "''description''" 1]
  have "build_col_map Map.empty 0 repeated_header ''description'' = Some 1"
    by simp
  with len cell later show ?thesis
    by blast
qed

subsection \<open>Merchant normaliser\<close>

lemma single_spaced_Nil: "single_spaced []"
  by (simp add: single_spaced_def)

lemma single_spaced_sublist:
  assumes "single_spaced s" and "sublist t s"
  shows "single_spaced t"
proof -
  from assms(2) have "set t \<subseteq> set s"
    by (rule set_mono_sublist)
  moreover have "sublist [a, b] s" if "sublist [a, b] t" for a b
    using that assms(2) by (rule sublist_order.order_trans)
  ultimately show ?thesis
    using assms(1) unfolding single_spaced_def by blast
qed

lemma single_spaced_Cons:
  "single_spaced (c # cs) =
     ((isspace c \<longrightarrow> c = CHR '' '' \<and> (cs = [] \<or> \<not> isspace (hd cs))) \<and> single_spaced cs)"
proof (cases cs)
  case Nil
  then show ?thesis
    by (auto simp: single_spaced_def sublist_Cons_right)
next
  case (Cons d ds)
  have pre: "prefix [a, b] (c # d # ds) = (a = c \<and> b = d)" for a b
    by simp
  show ?thesis
    unfolding Cons single_spaced_def
    by (auto simp: sublist_Cons_right [of _ c] pre)
qed

lemma collapse_ws_hd:
  "s \<noteq> [] \<Longrightarrow> \<not> isspace (hd s) \<Longrightarrow> collapse_ws s \<noteq> [] \<and> hd (collapse_ws s) = hd s"
  by (cases s) (simp_all add: collapse_ws.simps)

lemma collapse_ws_Nil_iff: "(collapse_ws s = []) = (s = [])"
  by (cases s) (simp_all add: collapse_ws.simps)

lemma single_spaced_collapse_ws: "single_spaced (collapse_ws s)"
proof (induction s rule: collapse_ws.induct)
  case 1
  show ?case by (simp add: collapse_ws.simps single_spaced_Nil)
next
  case (2 c cs)
  show ?case
  proof (cases "isspace c")
    case True
    let ?t = "dropWhile isspace cs"
    have "collapse_ws ?t = [] \<or> \<not> isspace (hd (collapse_ws ?t))"
    proof (cases "?t = []")
      case True
      show ?thesis by (simp only: True collapse_ws.simps) simp
    next
      case False
      then have "\<not> isspace (hd ?t)"
        by (rule hd_dropWhile)
      with False collapse_ws_hd [of ?t] show ?thesis
        by simp
    qed
    with True "2.IH"(1) show ?thesis
      by (simp add: collapse_ws.simps single_spaced_Cons)
  next
    case False
    with "2.IH"(2) show ?thesis
      by (simp add: collapse_ws.simps single_spaced_Cons)
  qed
qed

lemma collapse_ws_single_spaced: "single_spaced s \<Longrightarrow> collapse_ws s = s"
proof (induction s)
  case Nil
  show ?case by (simp add: collapse_ws.simps)
next
  case (Cons c cs)
  from Cons.prems have cs: "single_spaced cs"
    and sp: "isspace c \<longrightarrow> c = CHR '' '' \<and> (cs = [] \<or> \<not> isspace (hd cs))"
    by (simp_all add: single_spaced_Cons)
  from sp have "isspace c \<Longrightarrow> dropWhile isspace cs = cs"
    by (cases cs) auto
  with sp Cons.IH [OF cs] show ?case
    by (auto simp: collapse_ws.simps)
qed

lemma sublist_strip_class: "sublist (strip_class p s) s"
proof -
  let ?t = "dropWhile p s"
  have "suffix (dropWhile p (rev ?t)) (rev ?t)"
    by (rule suffix_dropWhile)
  then have "prefix (strip_class p s) ?t"
    by (simp add: strip_class_def suffix_to_prefix)
  then have "sublist (strip_class p s) ?t"
    by (rule prefix_imp_sublist)
  moreover have "sublist ?t s"
    by (rule suffix_imp_sublist) (rule suffix_dropWhile)
  ultimately show ?thesis
    by (rule sublist_order.order_trans)
qed

lemma strip_class_edges:
  "strip_class p s = [] \<or> (\<not> p (hd (strip_class p s)) \<and> \<not> p (last (strip_class p s)))"
proof (cases "strip_class p s = []")
  case True
  then show ?thesis by simp
next
  case False
  define t where "t = dropWhile p s"
  define u where "u = dropWhile p (rev t)"
  have r: "strip_class p s = rev u"
    by (simp add: strip_class_def t_def u_def)
  from False r have u: "u \<noteq> []"
    by simp
  have hd_u: "\<not> p (hd u)"
    using u unfolding u_def by (rule hd_dropWhile)
  have t: "t \<noteq> []"
  proof
    assume "t = []"
    then have "u = []"
      by (simp add: u_def)
    with u show False ..
  qed
  have hd_t: "\<not> p (hd t)"
    using t unfolding t_def by (rule hd_dropWhile)
  have "suffix u (rev t)"
    unfolding u_def by (rule suffix_dropWhile)
  then have "last u = last (rev t)"
    using u by (auto simp: suffix_def)
  also have "\<dots> = hd t"
    by (simp add: last_rev)
  finally have "\<not> p (last u)"
    using hd_t by simp
  with u hd_u show ?thesis
    unfolding r by (simp add: hd_rev last_rev)
qed

lemma strip_class_id:
  assumes "s = [] \<or> (\<not> p (hd s) \<and> \<not> p (last s))"
  shows "strip_class p s = s"
proof (cases s)
  case Nil
  then show ?thesis by (simp add: strip_class_def)
next
  case (Cons c cs)
  with assms have a: "\<not> p c" and b: "\<not> p (last (c # cs))"
    by simp_all
  from a have "dropWhile p (c # cs) = c # cs"
    by simp
  moreover from b have "dropWhile p (rev (c # cs)) = rev (c # cs)"
    by (metis dropWhile.simps(2) hd_rev list.collapse dropWhile.simps(1))
  ultimately show ?thesis
    by (simp add: strip_class_def Cons)
qed

lemma stripped_strip: "stripped (strip s)"
  using strip_class_edges [of isspace s] by (simp add: stripped_def strip_def)

lemma strip_stripped: "stripped s \<Longrightarrow> strip s = s"
  unfolding stripped_def strip_def by (rule strip_class_id)

lemma isspace_upper_char: "isspace (upper_char c) = isspace c"
  by (auto simp: upper_char_def isspace_def split: option.splits if_splits)

lemma upper_char_blank: "(upper_char c = CHR '' '') = (c = CHR '' '')"
  by (auto simp: upper_char_def split: option.splits if_splits)

lemma upper_char_idem: "upper_char (upper_char c) = upper_char c"
  by (auto simp: upper_char_def split: option.splits if_splits)

lemma upper_idem: "upper (upper s) = upper s"
  by (simp add: upper_def upper_char_idem)

lemma single_spaced_upper: "single_spaced s \<Longrightarrow> single_spaced (upper s)"
proof (induction s)
  case Nil
  then show ?case by (simp add: upper_def)
next
  case (Cons c cs)
  then show ?case
    by (cases cs)
      (auto simp: upper_def single_spaced_Cons isspace_upper_char upper_char_blank)
qed

lemma stripped_upper: "stripped s \<Longrightarrow> stripped (upper s)"
  by (auto simp: stripped_def upper_def hd_map last_map isspace_upper_char)

lemma upper_fixed_subset:
  assumes "upper s = s" and "set t \<subseteq> set s"
  shows "upper t = t"
proof -
  from assms(1) have "map upper_char s = map (\<lambda>c. c) s"
    by (simp add: upper_def)
  then have "\<forall>c \<in> set s. upper_char c = c"
    by (simp only: map_eq_conv)
  with assms(2) show ?thesis
    unfolding upper_def by (auto intro: map_idI)
qed

lemma strip_known_prefix_None:
  "(strip_known_prefix y ps = None) = (\<not> list_ex (startswith y) ps)"
  by (induction ps) auto

lemma length_collapse_ws: "length (collapse_ws s) \<le> length s"
proof (induction s rule: collapse_ws.induct)
  case 1
  show ?case by (simp add: collapse_ws.simps)
next
  case (2 c cs)
  have "length (dropWhile isspace cs) \<le> length cs"
    by (rule length_dropWhile_le)
  with 2 show ?case
    by (cases "isspace c") (simp_all add: collapse_ws.simps)
qed

lemma length_strip_class: "length (strip_class p s) \<le> length s"
  using sublist_strip_class [of p s] by (rule sublist_length_le)

lemma strip_known_prefix_shorter:
  assumes "strip_known_prefix y ps = Some t" and "\<forall>p \<in> set ps. p \<noteq> []"
  shows "length t < length y"
  using assms
proof (induction ps)
  case Nil
  then show ?case by simp
next
  case (Cons p ps)
  show ?case
  proof (cases "startswith y p")
    case True
    with Cons.prems(1)
    have t: "t = collapse_ws (strip_separators (drop (length p) y))"
      by simp
    from Cons.prems(2) have "0 < length p"
      by simp
    moreover from True have "length p \<le> length y"
      unfolding startswith_def by (metis length_take min.cobounded1)
    ultimately have "length y - length p < length y"
      by arith
    then have "length (drop (length p) y) < length y"
      by simp
    moreover have "length t \<le> length (drop (length p) y)"
      unfolding t strip_separators_def
      using length_collapse_ws length_strip_class by (rule order_trans)
    ultimately show ?thesis
      by simp
  next
    case False
    with Cons show ?thesis
      by simp
  qed
qed

lemma prefixes_not_empty: "\<forall>p \<in> set NORMALIZATION_PREFIXES. p \<noteq> []"
  by (simp add: NORMALIZATION_PREFIXES_def)

lemma strip_separators_normal:
  assumes "single_spaced s" and "upper s = s"
  shows "single_spaced (strip_separators (drop n s))"
    and "stripped (strip_separators (drop n s))"
    and "upper (strip_separators (drop n s)) = strip_separators (drop n s)"
proof -
  define r where "r = strip_separators (drop n s)"
  have "sublist r (drop n s)"
    unfolding r_def strip_separators_def by (rule sublist_strip_class)
  moreover have "sublist (drop n s) s"
    by (rule suffix_imp_sublist) (rule suffix_drop)
  ultimately have sub: "sublist r s"
    by (rule sublist_order.order_trans)
  from assms(1) sub show ss: "single_spaced r"
    by (rule single_spaced_sublist)
  from sub have "set r \<subseteq> set s"
    by (rule set_mono_sublist)
  with assms(2) show "upper r = r"
    by (rule upper_fixed_subset)
  have edges: "r = [] \<or> (hd r \<notin> set '' -:/'' \<and> last r \<notin> set '' -:/'')"
    unfolding r_def strip_separators_def by (rule strip_class_edges)
  show "stripped r"
  proof (cases "r = []")
    case True
    then show ?thesis by (simp add: stripped_def)
  next
    case False
    then have "hd r \<in> set r" and "last r \<in> set r"
      by simp_all
    with ss have "isspace (hd r) \<longrightarrow> hd r = CHR '' ''" and "isspace (last r) \<longrightarrow> last r = CHR '' ''"
      unfolding single_spaced_def by blast+
    with edges False show ?thesis
      by (auto simp: stripped_def)
  qed
qed

lemma strip_known_prefix_normal:
  assumes "strip_known_prefix up ps = Some t" and "single_spaced up" and "upper up = up"
  shows "single_spaced t \<and> stripped t \<and> upper t = t"
  using assms(1)
proof (induction ps)
  case Nil
  then show ?case by simp
next
  case (Cons p ps)
  show ?case
  proof (cases "startswith up p")
    case True
    with Cons.prems
    have "t = collapse_ws (strip_separators (drop (length p) up))"
      by simp
    also have "\<dots> = strip_separators (drop (length p) up)"
      by (rule collapse_ws_single_spaced) (rule strip_separators_normal [OF assms(2,3)])
    finally show ?thesis
      using strip_separators_normal [OF assms(2,3), of "length p"] by simp
  next
    case False
    with Cons show ?thesis
      by simp
  qed
qed

lemma normalize_merchant_normal:
  "single_spaced (normalize_merchant x) \<and> stripped (normalize_merchant x)
   \<and> upper (normalize_merchant x) = normalize_merchant x"
proof -
  define up where "up = upper (strip (collapse_ws x))"
  have "single_spaced (strip (collapse_ws x))"
    unfolding strip_def
    using single_spaced_collapse_ws sublist_strip_class by (rule single_spaced_sublist)
  then have ss: "single_spaced up"
    unfolding up_def by (rule single_spaced_upper)
  have tr: "stripped up"
    unfolding up_def by (rule stripped_upper) (rule stripped_strip)
  have fx: "upper up = up"
    unfolding up_def by (rule upper_idem)
  have eq: "normalize_merchant x =
      (case strip_known_prefix up NORMALIZATION_PREFIXES of
         Some t \<Rightarrow> t
       | None \<Rightarrow> collapse_ws up)"
    unfolding normalize_merchant_def up_def Let_def by (rule refl)
  show ?thesis
  proof (cases "strip_known_prefix up NORMALIZATION_PREFIXES")
    case None
    with eq have "normalize_merchant x = up"
      by (simp add: collapse_ws_single_spaced [OF ss])
    with ss tr fx show ?thesis
      by simp
  next
    case (Some t)
    with eq have "normalize_merchant x = t"
      by simp
    with strip_known_prefix_normal [OF Some ss fx] show ?thesis
      by simp
  qed
qed

lemma normalize_merchant_on_normal:
  assumes "single_spaced y" and "stripped y" and "upper y = y"
  shows "normalize_merchant y =
      (case strip_known_prefix y NORMALIZATION_PREFIXES of
         Some t \<Rightarrow> t
       | None \<Rightarrow> y)"
  using assms
  by (simp add: normalize_merchant_def Let_def collapse_ws_single_spaced strip_stripped
        split: option.splits)

text \<open>
  Claim C7, as stated: \<^verbatim>\<open>normalize_merchant\<close> is idempotent on every string. It is not:
  one call strips one prefix, so a description that repeats a prefix loses the second
  one only in the second call.
\<close>

theorem normalize_merchant_not_idempotent_counterexample:
  "normalize_merchant (normalize_merchant ''PIX ENVIADO PIX ENVIADO STRIPE'')
     \<noteq> normalize_merchant ''PIX ENVIADO PIX ENVIADO STRIPE''"
  by code_simp

text \<open>
  Claim C7, amended. A second call of \<^verbatim>\<open>normalize_merchant\<close> changes nothing exactly
  when the result of the first call does not start with one of the
  \<^verbatim>\<open>NORMALIZATION_PREFIXES\<close>; and \<^verbatim>\<open>normalize_merchant("PIX ENVIADO STRIPE BRASIL")\<close> is
  \<^verbatim>\<open>"STRIPE BRASIL"\<close>.
\<close>

theorem normalize_merchant_idempotent_iff:
  "((normalize_merchant (normalize_merchant x) = normalize_merchant x) =
      (\<not> list_ex (startswith (normalize_merchant x)) NORMALIZATION_PREFIXES))
   \<and> normalize_merchant ''PIX ENVIADO STRIPE BRASIL'' = ''STRIPE BRASIL''"
proof
  define y where "y = normalize_merchant x"
  have eq: "normalize_merchant y =
      (case strip_known_prefix y NORMALIZATION_PREFIXES of Some t \<Rightarrow> t | None \<Rightarrow> y)"
    unfolding y_def using normalize_merchant_normal [of x]
    by (intro normalize_merchant_on_normal) simp_all
  have "(normalize_merchant y = y) = (strip_known_prefix y NORMALIZATION_PREFIXES = None)"
  proof (cases "strip_known_prefix y NORMALIZATION_PREFIXES")
    case None
    with eq show ?thesis by simp
  next
    case (Some t)
    from strip_known_prefix_shorter [OF Some prefixes_not_empty] have "t \<noteq> y"
      by auto
    with eq Some show ?thesis by simp
  qed
  then show "(normalize_merchant (normalize_merchant x) = normalize_merchant x) =
      (\<not> list_ex (startswith (normalize_merchant x)) NORMALIZATION_PREFIXES)"
    unfolding y_def strip_known_prefix_None .
next
  show "normalize_merchant ''PIX ENVIADO STRIPE BRASIL'' = ''STRIPE BRASIL''"
    by code_simp
qed

theorem normalize_merchant_idempotent_witness:
  "\<not> list_ex (startswith (normalize_merchant ''PIX ENVIADO STRIPE BRASIL''))
       NORMALIZATION_PREFIXES
   \<and> normalize_merchant (normalize_merchant ''PIX ENVIADO STRIPE BRASIL'') =
       normalize_merchant ''PIX ENVIADO STRIPE BRASIL''"
proof -
  have "\<not> list_ex (startswith (normalize_merchant ''PIX ENVIADO STRIPE BRASIL''))
       NORMALIZATION_PREFIXES"
    by code_simp
  with normalize_merchant_idempotent_iff [of "''PIX ENVIADO STRIPE BRASIL''"]
  show ?thesis
    by blast
qed

end
